theory Spec2Isabelle
  imports Complex_Main
begin

section \<open>Conventions of the embedding\<close>

text \<open>
  The development embeds \<^verbatim>\<open>src/instruments.py\<close> and the scan loop of \<^verbatim>\<open>src/tandem.py\<close>.

  \<^item> Python's \<^verbatim>\<open>float\<close> is modelled by \<^typ>\<open>real\<close>: rounding, infinities and NaN are not
    represented, so every arithmetic statement below is a statement about the exact value of
    the expression the source writes.
  \<^item> An exception that the source does not catch is a value of \<^typ>\<open>'e + 'a\<close> (\<open>Inl\<close> the
    exception). Mutations made before the exception stay visible, so a method is a function
    from the object to a pair of its result and the object afterwards.
  \<^item> A device is an environment. Every instrument carries the outcome of each of its writes
    (\<open>writes\<close>, by the number of the write) and of each of its calls of \<^verbatim>\<open>getRsp\<close> (\<open>reads\<close>,
    by the number of the call, counted in \<open>nreads\<close>), and the log of the commands written to
    it (\<open>sent\<close>). A theorem that holds for every object therefore holds for every behaviour
    of the device.
  \<^item> Only stepped operation is modelled: \<^verbatim>\<open>isScanner\<close> is false, for the classifiers and for
    the window, and the branches that the source takes under \<^verbatim>\<open>isScanner\<close> (the self-scanning
    AAC and DMA) are left out.
  \<^item> \<^verbatim>\<open>float(s)\<close> on a string is a parameter \<open>pyfloat\<close> of the functions that call it:
    \<open>None\<close> stands for \<^verbatim>\<open>ValueError\<close>.
\<close>

datatype py_error =
  IndexError | KeyError | ValueError | ZeroDivisionError | AttributeError | TypeError
  | NotReal \<comment> \<open>Python continues with a complex number, which \<^typ>\<open>real\<close> does not represent\<close>
  | OutOfFuel \<comment> \<open>the clock readings given to the model ended inside a loop that waits for time\<close>

text \<open>
  A command as written to the link. \<open>CmdE w v\<close> stands for \<^verbatim>\<open>w + " " + "%0.4E" % v\<close>
  (\<^verbatim>\<open>CambustionClass.sendFloat\<close>) and \<open>CmdF w v\<close> for \<^verbatim>\<open>w + "%0.1F" % v\<close>
  (\<^verbatim>\<open>TSIDma.sendFloat\<close>); the digits printed for \<open>v\<close> are not modelled.
\<close>

datatype command = Cmd string | CmdE string real | CmdF string real

datatype reply = Data string | IOErr

section \<open>Python strings and sequences\<close>

text \<open>\<^verbatim>\<open>s.find(v)\<close>: the least index where \<open>v\<close> occurs in \<open>s\<close>, or \<open>-1\<close>.\<close>

fun find_str :: "string \<Rightarrow> string \<Rightarrow> int" where
  "find_str [] v = (if v = [] then 0 else -1)"
| "find_str (c # cs) v =
     (if take (length v) (c # cs) = v then 0
      else (let r = find_str cs v in if r < 0 then -1 else r + 1))"

text \<open>\<^verbatim>\<open>s[0:k]\<close>: a negative \<open>k\<close> counts from the end, and the slice never raises.\<close>

definition slice0 :: "'a list \<Rightarrow> int \<Rightarrow> 'a list" where
  "slice0 s k = take (nat (if k < 0 then int (length s) + k else k)) s"

text \<open>\<^verbatim>\<open>s.replace(c, "")\<close> for a single character \<open>c\<close>.\<close>

definition remove_char :: "char \<Rightarrow> string \<Rightarrow> string" where
  "remove_char c s = filter (\<lambda>d. d \<noteq> c) s"

text \<open>\<^verbatim>\<open>s.split(sep)\<close> for a separator of one character.\<close>

fun split_on :: "char \<Rightarrow> string \<Rightarrow> string list" where
  "split_on sep [] = [[]]"
| "split_on sep (c # cs) =
     (if c = sep then [] # split_on sep cs
      else (case split_on sep cs of w # ws \<Rightarrow> (c # w) # ws | [] \<Rightarrow> [[c]]))"

text \<open>\<^verbatim>\<open>s.strip()\<close>: the ASCII white space of Python.\<close>

definition is_space :: "char \<Rightarrow> bool" where
  "is_space c = (c \<in> set [CHR '' '', CHR 0x09, CHR 0x0A, CHR 0x0B, CHR 0x0C, CHR 0x0D])"

definition strip :: "string \<Rightarrow> string" where
  "strip s = rev (dropWhile is_space (rev (dropWhile is_space s)))"

text \<open>Indexing a sequence (list or numpy array) with a Python integer.\<close>

definition py_get :: "'a list \<Rightarrow> int \<Rightarrow> py_error + 'a" where
  "py_get xs i =
     (if 0 \<le> i \<and> i < int (length xs) then Inr (xs ! nat i)
      else if i < 0 \<and> - i \<le> int (length xs) then Inr (xs ! nat (int (length xs) + i))
      else Inl IndexError)"

text \<open>
  A dict comprehension \<^verbatim>\<open>{ks[i]: vs[i] for i in range(len(vs))}\<close> over keys that are there:
  a later binding of a key replaces an earlier one.
\<close>

definition dict_of :: "'k list \<Rightarrow> 'v list \<Rightarrow> ('k \<rightharpoonup> 'v)" where
  "dict_of ks vs = map_of (rev (zip ks vs))"

definition dict_get :: "('k \<rightharpoonup> 'v) \<Rightarrow> 'k \<Rightarrow> py_error + 'v" where
  "dict_get m k = case_option (Inl KeyError) Inr (m k)"


text \<open>Division of floats raises on a zero divisor.\<close>

definition float_div :: "real \<Rightarrow> real \<Rightarrow> py_error + real" where
  "float_div a b = (if b \<noteq> 0 then Inr (a / b) else Inl ZeroDivisionError)"

text \<open>\<^verbatim>\<open>math.log10\<close> raises \<^verbatim>\<open>ValueError\<close> outside the positive reals.\<close>

definition log10 :: "real \<Rightarrow> py_error + real" where
  "log10 a = (if 0 < a then Inr (log 10 a) else Inl ValueError)"

section \<open>Instrument\<close>

record instrument =
  isSerial :: bool
  connected :: bool
  lastResponse :: string
  sent :: "command list"
  writes :: "nat \<Rightarrow> bool"
  reads :: "nat \<Rightarrow> reply"
  nreads :: nat

text \<open>
  \<^verbatim>\<open>Instrument.match(s, v)\<close> is \<^verbatim>\<open>s[0:len(v)] == v\<close>.
\<close>

definition match :: "string \<Rightarrow> string \<Rightarrow> bool" where
  "match s v = (take (length v) s = v)"

text \<open>
  \<^verbatim>\<open>sendCmd\<close>: the write is logged; when it raises, the handler clears \<open>connected\<close>.
\<close>

definition sendCmd :: "command \<Rightarrow> 'a instrument_scheme \<Rightarrow> 'a instrument_scheme" where
  "sendCmd cmd i =
     i\<lparr>sent := sent i @ [cmd],
       connected := (if writes i (length (sent i)) then connected i else False)\<rparr>"

text \<open>
  \<^verbatim>\<open>getRsp\<close> as the callers see it: the text it returned (the empty string when a serial
  read timed out), or that the read raised, in which case the handler clears \<open>connected\<close>
  and the result is the empty string.
\<close>

definition getRsp :: "'a instrument_scheme \<Rightarrow> string \<times> 'a instrument_scheme" where
  "getRsp i =
     (case reads i (nreads i) of
        Data t \<Rightarrow> (t, i\<lparr>nreads := Suc (nreads i)\<rparr>)
      | IOErr \<Rightarrow> ([], i\<lparr>nreads := Suc (nreads i), connected := False\<rparr>))"

definition sendQuery :: "command \<Rightarrow> 'a instrument_scheme \<Rightarrow> string \<times> 'a instrument_scheme" where
  "sendQuery cmd i = getRsp (sendCmd cmd i)"

text \<open>\<^verbatim>\<open>CambustionClass.sendAndCheck\<close> and \<^verbatim>\<open>TSIDma.sendAndCheck\<close>.\<close>

definition CambustionClass_sendAndCheck ::
  "command \<Rightarrow> 'a instrument_scheme \<Rightarrow> bool \<times> 'a instrument_scheme" where
  "CambustionClass_sendAndCheck cmd i =
     (let (r, i') = sendQuery cmd i in (match r ''OK'', i'\<lparr>lastResponse := r\<rparr>))"

definition TSIDma_sendAndCheck ::
  "command \<Rightarrow> 'a instrument_scheme \<Rightarrow> bool \<times> 'a instrument_scheme" where
  "TSIDma_sendAndCheck cmd i =
     (let (r, i') = sendQuery cmd i in (\<not> match r ''ERROR'', i'\<lparr>lastResponse := r\<rparr>))"

section \<open>Classifier\<close>

datatype kind = CPMA | AAC | TSI3080 | TSI3082

text \<open>The class attributes of the four classifier classes.\<close>

fun quantity :: "kind \<Rightarrow> string" where
  "quantity CPMA = ''Mp (fg)''"
| "quantity AAC = ''Da (nm)''"
| "quantity TSI3080 = ''Dm (nm)''"
| "quantity TSI3082 = ''Dm (nm)''"

fun valueFields :: "kind \<Rightarrow> string list" where
  "valueFields CPMA =
     [''Speed (rad/s)'', ''Voltage (V)'', ''Pressure (Pa)'', ''Temperature (C)'']"
| "valueFields AAC =
     [''Speed (rad/s)'', ''Sheath flow (lpm)'', ''Pressure (Pa)'', ''Temperature (C)'']"
| "valueFields TSI3080 =
     [''Sheath flow (lpm)'', ''Voltage (V)'', ''Temperature (C)'', ''Pressure (mbar)'']"
| "valueFields TSI3082 = [''Temperature (C)'', ''Pressure (kPa)'']"

definition fileFields :: "kind \<Rightarrow> string list" where
  "fileFields k = quantity k # valueFields k"

text \<open>
  The fields of the reply to the monitor command, for the classes that use
  \<^verbatim>\<open>Classifier.doMonitorCmd\<close>; \<^verbatim>\<open>TSI3082\<close> overrides that method and has no such table.
\<close>

fun monitorFields :: "kind \<Rightarrow> string list" where
  "monitorFields CPMA =
     [''Speed (rad/s)'', ''Voltage (V)'', ''HT current'', ''brake temp'', ''motor current'',
      ''power stage temp'', ''ref pressure'', ''Temperature (C)'', ''un-scaled voltage'',
      ''voltage PID demand'', ''voltage gain range'', ''door locked'', ''door closed'',
      ''detector 1'', ''detector 2'', ''serial detector'', ''AI1 V'', ''AI2 V'', ''AI3 V'',
      ''AO1 V'', ''AO2 V'', ''AO3 V'', ''run status'', ''motor temperature'',
      ''output function'', ''PSU voltage'', ''Pressure (Pa)'', ''outer speed feedback'',
      ''inner speed feedback'', ''vibration level'', ''sensor board ref voltage'',
      ''lock actuator position'']"
| "monitorFields AAC =
     [''Speed (rad/s)'', ''Sheath flow (lpm)'', ''brake temp'', ''motor current'',
      ''power stage temp'', ''ref pressure'', ''Temperature (C)'', ''door locked'',
      ''door closed'', ''analogue detector'', ''serial detector'', ''AI1 V'', ''AI2 V'',
      ''AI3 V'', ''AO1 V'', ''AO2 V'', ''AO3 V'', ''run status'', ''motor temperature'',
      ''main CPC'', ''PSU voltage'', ''Pressure (Pa)'', ''classifier speed feedback'']"
| "monitorFields TSI3080 =
     [''Dp'', ''Voltage (V)'', ''Sheath flow (lpm)'', ''Bypass flow'', ''Pressure (mbar)'',
      ''Temperature (C)'', ''Case temp'', ''Impactor flow'', ''E-mobility'', ''Control mode'',
      ''Flow mode'', ''Sheath status'', ''Bypass status'', ''HV status'', ''Impactor Dp'',
      ''DMA model'', ''Gas'', ''Impactor'', ''Dp act'', ''Min Dp'', ''Max Dp'']"
| "monitorFields TSI3082 = []"

fun monitorCmd :: "kind \<Rightarrow> string" where
  "monitorCmd TSI3080 = ''RMV''"
| "monitorCmd k = ''monitor''"

fun monitorSep :: "kind \<Rightarrow> char" where
  "monitorSep TSI3080 = CHR '',''"
| "monitorSep k = CHR '' ''"

text \<open>\<^verbatim>\<open>TSI3082.monitorCmds\<close>, in the order of the dict, and \<^verbatim>\<open>TSI3082.tolerance\<close>.\<close>

definition monitorCmds :: "(string \<times> string) list" where
  "monitorCmds =
     [(''Sheath flow SP (lpm)'', ''RSSHFLOW''), (''Sheath flow (lpm)'', ''RMSHFLOW''),
      (''Voltage SP (V)'', ''RSHV''), (''Voltage (V)'', ''RMHV''),
      (''Temperature (C)'', ''RMSHTEMP''), (''Pressure (kPa)'', ''RMSHAP''),
      (''Error Status'', ''RMERRORS'')]"

definition tolerance :: real where
  "tolerance = 0.05"

definition isCambustion :: "kind \<Rightarrow> bool" where
  "isCambustion k = (k = CPMA \<or> k = AAC)"

text \<open>
  The object. \<open>setpoint_x\<close> and \<open>setpoints_X\<close> are the attributes \<^verbatim>\<open>x\<close> and \<^verbatim>\<open>X\<close>; \<open>end'\<close> is
  \<^verbatim>\<open>end\<close> and \<open>values'\<close> is \<^verbatim>\<open>values\<close>. An attribute that does not exist until some method assigns it is an option:
  \<^verbatim>\<open>values\<close> and \<^verbatim>\<open>tally\<close> appear with the first \<^verbatim>\<open>next()\<close>, \<^verbatim>\<open>sampleFlow\<close> with
  \<^verbatim>\<open>setFlow\<close> or the constructor of \<^verbatim>\<open>TSI3082\<close>, \<^verbatim>\<open>PreFactor\<close> and \<^verbatim>\<open>Exponent\<close> when one of the
  three material flags is set.
\<close>

record classifier = instrument +
  kind :: kind
  start :: real
  end' :: real
  perdec :: int
  points :: int
  point :: int
  flow :: real
  RorQsh :: real
  setpoint_x :: real
  setpoints_X :: "real list"
  values' :: "(string \<rightharpoonup> real) option"
  tally :: "int option"
  variableBins :: bool
  sampleFlow :: "real option"
  f_lower :: real
  f_upper :: real
  PreFactor :: "real option"
  Exponent :: "real option"

type_synonym 'a result = "(py_error + 'a) \<times> classifier"

text \<open>\<^verbatim>\<open>sendAndCheck\<close> and \<^verbatim>\<open>sendFloat\<close> as the class of the object resolves them.\<close>

definition sendAndCheck :: "command \<Rightarrow> classifier \<Rightarrow> bool \<times> classifier" where
  "sendAndCheck cmd c =
     (if isCambustion (kind c) then CambustionClass_sendAndCheck cmd c
      else TSIDma_sendAndCheck cmd c)"

definition sendFloat :: "string \<Rightarrow> real \<Rightarrow> classifier \<Rightarrow> bool \<times> classifier" where
  "sendFloat w v c =
     (if isCambustion (kind c) then sendAndCheck (CmdE w v) c else sendAndCheck (CmdF w v) c)"

fun sizeCommand :: "kind \<Rightarrow> string" where
  "sizeCommand CPMA = ''SetMass''"
| "sizeCommand AAC = ''SetSize''"
| "sizeCommand TSI3080 = ''SPD''"
| "sizeCommand TSI3082 = ''WSPARTICLEDIAM ''"

fun sheathCommand :: "kind \<Rightarrow> string" where
  "sheathCommand CPMA = ''SetRm''"
| "sheathCommand AAC = ''SetSheath''"
| "sheathCommand TSI3080 = ''SQS''"
| "sheathCommand TSI3082 = ''WSSHFLOW ''"

text \<open>\<^verbatim>\<open>set(x)\<close>: the set-setpoint command of the class.\<close>

definition Classifier_set :: "real \<Rightarrow> classifier \<Rightarrow> bool \<times> classifier" where
  "Classifier_set v c = sendFloat (sizeCommand (kind c)) v c"

definition is_set_command :: "command \<Rightarrow> bool" where
  "is_set_command cmd =
     (case cmd of
        CmdE w v \<Rightarrow> w = ''SetMass'' \<or> w = ''SetSize''
      | CmdF w v \<Rightarrow> w = ''SPD'' \<or> w = ''WSPARTICLEDIAM ''
      | Cmd w \<Rightarrow> False)"

definition setRorQsh :: "real \<Rightarrow> classifier \<Rightarrow> bool \<times> classifier" where
  "setRorQsh v c = sendFloat (sheathCommand (kind c)) v c"

definition setFlow :: "real \<Rightarrow> classifier \<Rightarrow> bool \<times> classifier" where
  "setFlow v c = sendFloat ''SetSampleFlow'' v (c\<lparr>sampleFlow := Some v\<rparr>)"

text \<open>\<^verbatim>\<open>Classifier.getPoint\<close>: \<^verbatim>\<open>start*((10.0**(1.0/perdec))**p)\<close>.\<close>

definition getPoint :: "real \<Rightarrow> int \<Rightarrow> nat \<Rightarrow> py_error + real" where
  "getPoint st pd p =
     (if pd = 0 then Inl ZeroDivisionError else Inr (st * ((10 powr (1 / of_int pd)) ^ p)))"

text \<open>
  \<^verbatim>\<open>points = math.floor(perdec*(math.log10(end)-math.log10(start))+0.00001)+1\<close>; the first
  argument evaluated is \<^verbatim>\<open>end\<close>.
\<close>

definition count_points :: "real \<Rightarrow> real \<Rightarrow> int \<Rightarrow> py_error + int" where
  "count_points st en pd =
     (case log10 en of Inl e \<Rightarrow> Inl e | Inr le \<Rightarrow>
      (case log10 st of Inl e \<Rightarrow> Inl e | Inr ls \<Rightarrow>
         Inr (\<lfloor>of_int pd * (le - ls) + 0.00001\<rfloor> + 1)))"

text \<open>
  \<^verbatim>\<open>X = np.zeros(points)\<close> raises on a negative size; the loop then fills every entry with
  \<^verbatim>\<open>getPoint(i)\<close>.
\<close>

fun fill_X :: "real \<Rightarrow> int \<Rightarrow> nat list \<Rightarrow> py_error + real list" where
  "fill_X st pd [] = Inr []"
| "fill_X st pd (i # is) =
     (case getPoint st pd i of Inl e \<Rightarrow> Inl e | Inr v \<Rightarrow>
      (case fill_X st pd is of Inl e \<Rightarrow> Inl e | Inr vs \<Rightarrow> Inr (v # vs)))"

definition make_X :: "real \<Rightarrow> int \<Rightarrow> int \<Rightarrow> py_error + real list" where
  "make_X st pd n = (if n < 0 then Inl ValueError else fill_X st pd [0 ..< nat n])"

text \<open>
  \<^verbatim>\<open>connect()\<close>: \<open>link\<close> tells whether the port or socket opened. The Cambustion
  classes then read the greeting of the instrument. (The control bytes that
  \<^verbatim>\<open>CambustionClass.connect\<close>, \<^verbatim>\<open>disconnectEth\<close> and \<^verbatim>\<open>StopScan\<close> write directly to the port are
  not commands of \<^verbatim>\<open>sendCmd\<close> and are not logged.)
\<close>

definition connect :: "bool \<Rightarrow> classifier \<Rightarrow> bool \<times> classifier" where
  "connect link c =
     (if \<not> link then (False, c)
      else if kind c = CPMA then (let (r, c') = getRsp c in (match r ''Cambustion CPMA'', c'))
      else if kind c = AAC then (let (r, c') = getRsp c in (match r ''Cambustion AAC'', c'))
      else (True, c))"

text \<open>
  The arguments of the constructors, as \<^verbatim>\<open>runScan\<close> passes them, and the environment of the
  new object: whether the link opens, and what its writes and reads will do. The text
  fields of the form arrive as strings; the zeros that \<^verbatim>\<open>runScan\<close> passes for the first
  classifier are falsy like the empty string.
\<close>

record ctor_args =
  a_isSerial :: bool
  a_link :: bool
  a_writes :: "nat \<Rightarrow> bool"
  a_reads :: "nat \<Rightarrow> reply"
  a_start :: real
  a_end :: real
  a_perdec :: int
  a_flow :: real
  a_RorQsh :: real
  a_Polarity :: bool
  a_PreFactor :: string
  a_Exponent :: string
  a_f_lower :: string
  a_f_upper :: string
  a_IsWater :: bool
  a_IsSoot :: bool
  a_IsNone :: bool
  a_variableBins :: bool

text \<open>
  \<^verbatim>\<open>Classifier.__init__\<close>: the sweep axis, then \<^verbatim>\<open>Instrument.__init__\<close> (the connection),
  then \<^verbatim>\<open>setRorQsh\<close>. The attributes that the subclasses add are given the values they have
  before the subclass constructor runs.
\<close>

definition Classifier_fields :: "kind \<Rightarrow> ctor_args \<Rightarrow> int \<Rightarrow> real list \<Rightarrow> classifier" where
  "Classifier_fields k a n xs =
     \<lparr>isSerial = a_isSerial a, connected = False, lastResponse = [],
      sent = [], writes = a_writes a, reads = a_reads a, nreads = 0,
      kind = k, start = a_start a, end' = a_end a, perdec = a_perdec a,
      points = n, point = - 1, flow = a_flow a, RorQsh = a_RorQsh a,
      setpoint_x = 0, setpoints_X = xs, values' = None, tally = None,
      variableBins = False, sampleFlow = None,
      f_lower = 0.85, f_upper = 1.1, PreFactor = None, Exponent = None\<rparr>"

definition Classifier_init :: "kind \<Rightarrow> ctor_args \<Rightarrow> py_error + classifier" where
  "Classifier_init k a =
     (case count_points (a_start a) (a_end a) (a_perdec a) of Inl e \<Rightarrow> Inl e | Inr n \<Rightarrow>
      (case make_X (a_start a) (a_perdec a) n of Inl e \<Rightarrow> Inl e | Inr xs \<Rightarrow>
         (let (ok, c1) = connect (a_link a) (Classifier_fields k a n xs);
              c2 = c1\<lparr>connected := ok, lastResponse := []\<rparr>
          in Inr (snd (setRorQsh (a_RorQsh a) c2)))))"

text \<open>\<^verbatim>\<open>CambustionClass.__init__\<close>: after the base constructor, the sample flow and the first
  setpoint are commanded.\<close>

definition CambustionClass_init :: "kind \<Rightarrow> ctor_args \<Rightarrow> py_error + classifier" where
  "CambustionClass_init k a =
     (case Classifier_init k a of Inl e \<Rightarrow> Inl e | Inr c \<Rightarrow>
        (let c1 = snd (setFlow (a_flow a) c) in Inr (snd (Classifier_set (start c1) c1))))"

text \<open>
  The text fields \<^verbatim>\<open>f_lower\<close>, \<^verbatim>\<open>f_upper\<close>, \<^verbatim>\<open>PreFactor\<close>, \<^verbatim>\<open>Exponent\<close>:
  \<^verbatim>\<open>float(s) if s and s.strip() else d\<close>.
\<close>

definition text_or_default ::
  "(string \<Rightarrow> real option) \<Rightarrow> string \<Rightarrow> real \<Rightarrow> py_error + real" where
  "text_or_default pyfloat s d =
     (if s \<noteq> [] \<and> strip s \<noteq> [] then
        (case pyfloat s of None \<Rightarrow> Inl ValueError | Some v \<Rightarrow> Inr v)
      else Inr d)"

text \<open>
  The part that the constructors of \<^verbatim>\<open>AAC\<close> and \<^verbatim>\<open>TSI3082\<close> share: the two range factors and
  the material constants of the mass-mobility relation (water, soot, or as typed).
\<close>

definition material_init ::
  "(string \<Rightarrow> real option) \<Rightarrow> ctor_args \<Rightarrow> classifier \<Rightarrow> py_error + classifier" where
  "material_init pyfloat a c =
     (case text_or_default pyfloat (a_f_lower a) 0.85 of Inl e \<Rightarrow> Inl e | Inr fl \<Rightarrow>
      (case text_or_default pyfloat (a_f_upper a) 1.1 of Inl e \<Rightarrow> Inl e | Inr fu \<Rightarrow>
         (let c1 = c\<lparr>variableBins := a_variableBins a, f_lower := fl, f_upper := fu\<rparr>
          in if a_IsWater a then Inr (c1\<lparr>PreFactor := Some 523.6, Exponent := Some 3\<rparr>)
             else if a_IsSoot a then Inr (c1\<lparr>PreFactor := Some 0.0612, Exponent := Some 2.48\<rparr>)
             else if a_IsNone a then
               (case text_or_default pyfloat (a_PreFactor a) 523.6 of Inl e \<Rightarrow> Inl e
                | Inr pf \<Rightarrow>
                  (case text_or_default pyfloat (a_Exponent a) 3 of Inl e \<Rightarrow> Inl e
                   | Inr ex \<Rightarrow> Inr (c1\<lparr>PreFactor := Some pf, Exponent := Some ex\<rparr>)))
             else Inr c1)))"

text \<open>\<^verbatim>\<open>AAC.__init__\<close> and \<^verbatim>\<open>TSI3082.__init__\<close> for a stepped classifier; the DMA is told its
  polarity.\<close>

definition AAC_init :: "(string \<Rightarrow> real option) \<Rightarrow> ctor_args \<Rightarrow> py_error + classifier" where
  "AAC_init pyfloat a =
     (case CambustionClass_init AAC a of Inl e \<Rightarrow> Inl e | Inr c \<Rightarrow> material_init pyfloat a c)"

definition TSI3082_init :: "(string \<Rightarrow> real option) \<Rightarrow> ctor_args \<Rightarrow> py_error + classifier" where
  "TSI3082_init pyfloat a =
     (case Classifier_init TSI3082 a of Inl e \<Rightarrow> Inl e | Inr c \<Rightarrow>
        (let c1 = c\<lparr>sampleFlow := Some (a_flow a)\<rparr>;
             c2 = snd (sendAndCheck (Cmd (if a_Polarity a then ''WSHVPOL 0''
                                          else ''WSHVPOL 1'')) c1)
         in material_init pyfloat a c2))"

text \<open>The constructor call of \<^verbatim>\<open>runScan\<close> for the class chosen in the list.\<close>

definition new_classifier ::
  "(string \<Rightarrow> real option) \<Rightarrow> kind \<Rightarrow> ctor_args \<Rightarrow> py_error + classifier" where
  "new_classifier pyfloat k a =
     (case k of
        CPMA \<Rightarrow> CambustionClass_init CPMA a
      | AAC \<Rightarrow> AAC_init pyfloat a
      | TSI3080 \<Rightarrow> Classifier_init TSI3080 a
      | TSI3082 \<Rightarrow> TSI3082_init pyfloat a)"

section \<open>The sweep and the feedback of a classifier\<close>

text \<open>
  \<^verbatim>\<open>Classifier.next\<close>: the accumulators are reset and the index is incremented before the
  setpoint is read from \<^verbatim>\<open>X\<close>; the result is the acknowledgement of the set command.
\<close>

definition Classifier_next :: "classifier \<Rightarrow> bool result" where
  "Classifier_next c =
     (let vf = valueFields (kind c);
          c1 = c\<lparr>values' := Some (dict_of vf (map (\<lambda>f. 0) vf)), tally := Some 0,
                 point := point c + 1\<rparr>
      in case py_get (setpoints_X c1) (point c1) of
           Inl e \<Rightarrow> (Inl e, c1)
         | Inr v \<Rightarrow> (let (ok, c2) = Classifier_set v (c1\<lparr>setpoint_x := v\<rparr>) in (Inr ok, c2)))"

definition moreToCome :: "classifier \<Rightarrow> bool" where
  "moreToCome c = (point c + 1 < points c)"

definition reset :: "classifier \<Rightarrow> classifier" where
  "reset c = c\<lparr>point := - 1\<rparr>"

text \<open>
  \<^verbatim>\<open>TSI3082.doMonitorCmd\<close> sends one query for each entry of \<^verbatim>\<open>monitorCmds\<close> and returns the
  replies under the names of the entries.
\<close>

fun TSI3082_queries ::
  "(string \<times> string) list \<Rightarrow> classifier \<Rightarrow> (string \<times> string) list \<times> classifier" where
  "TSI3082_queries [] c = ([], c)"
| "TSI3082_queries ((key, cmd) # kcs) c =
     (let (r, c1) = sendQuery (Cmd cmd) c; (out, c2) = TSI3082_queries kcs c1
      in ((key, r) # out, c2))"

text \<open>
  \<^verbatim>\<open>doMonitorCmd\<close>: for the other classes the reply to the monitor command is split at the
  separator and its fields are named after \<^verbatim>\<open>monitorFields\<close>; a reply with more fields than
  names raises.
\<close>

definition doMonitorCmd :: "classifier \<Rightarrow> (string \<rightharpoonup> string) result" where
  "doMonitorCmd c =
     (if kind c = TSI3082 then
        (let (out, c1) = TSI3082_queries monitorCmds c
         in (Inr (dict_of (map fst out) (map snd out)), c1))
      else
        (let (r, c1) = sendQuery (Cmd (monitorCmd (kind c))) c;
             fs = split_on (monitorSep (kind c)) r
         in if length (monitorFields (kind c)) < length fs then (Inl IndexError, c1)
            else (Inr (dict_of (monitorFields (kind c)) fs), c1)))"

text \<open>
  The comprehension of \<^verbatim>\<open>Classifier.monitor\<close>: for each value field in turn, the running
  sum plus \<^verbatim>\<open>float\<close> of the field of the reply.
\<close>

fun accumulate ::
  "(string \<Rightarrow> real option) \<Rightarrow> (string \<rightharpoonup> real) option \<Rightarrow> (string \<rightharpoonup> string) \<Rightarrow> string list
   \<Rightarrow> py_error + real list" where
  "accumulate pyfloat vals r [] = Inr []"
| "accumulate pyfloat vals r (f # fs) =
     (case vals of None \<Rightarrow> Inl AttributeError | Some m \<Rightarrow>
      (case m f of None \<Rightarrow> Inl KeyError | Some v \<Rightarrow>
       (case r f of None \<Rightarrow> Inl KeyError | Some t \<Rightarrow>
        (case pyfloat t of None \<Rightarrow> Inl ValueError | Some w \<Rightarrow>
         (case accumulate pyfloat vals r fs of Inl e \<Rightarrow> Inl e
          | Inr vs \<Rightarrow> Inr ((v + w) # vs))))))"

text \<open>
  The body of \<^verbatim>\<open>Classifier.monitor\<close> once \<^verbatim>\<open>doMonitorCmd\<close> has returned \<open>r\<close>: the sums are
  replaced, then the tally is incremented.
\<close>

definition monitor_reply ::
  "(string \<Rightarrow> real option) \<Rightarrow> (string \<rightharpoonup> string) \<Rightarrow> classifier \<Rightarrow> unit result" where
  "monitor_reply pyfloat r c =
     (let vf = valueFields (kind c)
      in case accumulate pyfloat (values' c) r vf of
           Inl e \<Rightarrow> (Inl e, c)
         | Inr vs \<Rightarrow>
             (let c1 = c\<lparr>values' := Some (dict_of vf vs)\<rparr>
              in case tally c1 of
                   None \<Rightarrow> (Inl AttributeError, c1)
                 | Some t \<Rightarrow> (Inr (), c1\<lparr>tally := Some (t + 1)\<rparr>)))"

definition Classifier_monitor :: "(string \<Rightarrow> real option) \<Rightarrow> classifier \<Rightarrow> unit result" where
  "Classifier_monitor pyfloat c =
     (case doMonitorCmd c of
        (Inl e, c1) \<Rightarrow> (Inl e, c1)
      | (Inr r, c1) \<Rightarrow> monitor_reply pyfloat r c1)"

text \<open>
  \<^verbatim>\<open>Classifier.getFileData\<close>: the setpoint under the name of the quantity, and each sum
  divided by \<^verbatim>\<open>float(self.tally)\<close>.
\<close>

fun averages ::
  "(string \<rightharpoonup> real) option \<Rightarrow> int option \<Rightarrow> string list \<Rightarrow> py_error + real list" where
  "averages vals tal [] = Inr []"
| "averages vals tal (f # fs) =
     (case vals of None \<Rightarrow> Inl AttributeError | Some m \<Rightarrow>
      (case m f of None \<Rightarrow> Inl KeyError | Some v \<Rightarrow>
       (case tal of None \<Rightarrow> Inl AttributeError | Some t \<Rightarrow>
        (case float_div v (of_int t) of Inl e \<Rightarrow> Inl e | Inr q \<Rightarrow>
         (case averages vals tal fs of Inl e \<Rightarrow> Inl e | Inr qs \<Rightarrow> Inr (q # qs))))))"

definition getFileData :: "classifier \<Rightarrow> py_error + (string \<rightharpoonup> real)" where
  "getFileData c =
     (case averages (values' c) (tally c) (valueFields (kind c)) of
        Inl e \<Rightarrow> Inl e
      | Inr qs \<Rightarrow> Inr ([quantity (kind c) \<mapsto> setpoint_x c] ++ dict_of (valueFields (kind c)) qs))"


section \<open>Readiness\<close>

text \<open>
  The last expression of \<^verbatim>\<open>TSI3082.isReady\<close>,
  \<^verbatim>\<open>abs((ss-sm)/ss) < self.tolerance and abs((vs-vm)/vs) < self.tolerance\<close>: the second
  division is only made when the first comparison holds.
\<close>

definition in_tolerance :: "real \<Rightarrow> real \<Rightarrow> real \<Rightarrow> real \<Rightarrow> py_error + bool" where
  "in_tolerance ss sm vs vm =
     (case float_div (ss - sm) ss of Inl e \<Rightarrow> Inl e | Inr qs \<Rightarrow>
        if \<not> \<bar>qs\<bar> < tolerance then Inr False
        else (case float_div (vs - vm) vs of Inl e \<Rightarrow> Inl e | Inr qv \<Rightarrow>
                Inr (\<bar>qv\<bar> < tolerance)))"

text \<open>\<^verbatim>\<open>float(r[key])\<close>.\<close>

definition float_of ::
  "(string \<Rightarrow> real option) \<Rightarrow> (string \<rightharpoonup> string) \<Rightarrow> string \<Rightarrow> py_error + real" where
  "float_of pyfloat r key =
     (case r key of None \<Rightarrow> Inl KeyError | Some t \<Rightarrow>
      (case pyfloat t of None \<Rightarrow> Inl ValueError | Some v \<Rightarrow> Inr v))"

definition TSI3082_isReady :: "(string \<Rightarrow> real option) \<Rightarrow> classifier \<Rightarrow> bool result" where
  "TSI3082_isReady pyfloat c =
     (case doMonitorCmd c of
        (Inl e, c1) \<Rightarrow> (Inl e, c1)
      | (Inr r, c1) \<Rightarrow>
         (case float_of pyfloat r ''Sheath flow SP (lpm)'' of Inl e \<Rightarrow> (Inl e, c1) | Inr ss \<Rightarrow>
          (case float_of pyfloat r ''Sheath flow (lpm)'' of Inl e \<Rightarrow> (Inl e, c1) | Inr sm \<Rightarrow>
           (case float_of pyfloat r ''Voltage SP (V)'' of Inl e \<Rightarrow> (Inl e, c1) | Inr vs \<Rightarrow>
            (case float_of pyfloat r ''Voltage (V)'' of Inl e \<Rightarrow> (Inl e, c1) | Inr vm \<Rightarrow>
               (in_tolerance ss sm vs vm, c1))))))"

text \<open>\<^verbatim>\<open>isReady\<close> of the four classes.\<close>

definition isReady :: "(string \<Rightarrow> real option) \<Rightarrow> classifier \<Rightarrow> bool result" where
  "isReady pyfloat c =
     (case kind c of
        TSI3082 \<Rightarrow> TSI3082_isReady pyfloat c
      | TSI3080 \<Rightarrow>
          (let (r, c1) = sendQuery (Cmd ''RFL'') c
           in (Inr (match r ''1,1,1'' \<or> match r ''1,0,1''), c1))
      | _ \<Rightarrow> (let (r, c1) = sendQuery (Cmd ''Status'') c in (Inr (match r ''Running''), c1)))"

section \<open>Dynamic range of the AAC\<close>



section \<open>Framing of responses\<close>

text \<open>
  \<^verbatim>\<open>CambustionClass.getRsp\<close> reads chunks until the accumulated text contains the prompt
  \<^verbatim>\<open>"\r\n>"\<close> or the time is up. The environment is the list of what each turn of the loop
  observes: the time elapsed since the call when the loop condition is evaluated, and the
  outcome of the read that follows if the body runs. The value is \<open>None\<close> when the list ends
  while the loop is still running.
\<close>

definition CambustionClass_timeout :: real where
  "CambustionClass_timeout = 3"

definition prompt :: string where
  "prompt = [CHR 0x0D, CHR 0x0A, CHR ''>'']"

definition frame :: "string \<Rightarrow> string" where
  "frame chunks = remove_char (CHR ''>'') (slice0 chunks (find_str chunks prompt))"

fun CambustionClass_getRsp ::
  "real \<Rightarrow> string \<Rightarrow> (real \<times> reply) list \<Rightarrow> 'a instrument_scheme
   \<Rightarrow> (string \<times> 'a instrument_scheme) option" where
  "CambustionClass_getRsp timeout chunks [] i =
     (if find_str chunks prompt < 0 then None else Some (frame chunks, i))"
| "CambustionClass_getRsp timeout chunks ((elapsed, r) # evs) i =
     (if find_str chunks prompt < 0 \<and> elapsed < timeout then
        (case r of
           IOErr \<Rightarrow> Some ([], i\<lparr>connected := False\<rparr>)
         | Data chunk \<Rightarrow> CambustionClass_getRsp timeout (chunks @ chunk) evs i)
      else Some (frame chunks, i))"

text \<open>
  \<^verbatim>\<open>Instrument.getRspEth\<close> and \<^verbatim>\<open>getRspSerial\<close>: one read, returned as it is; a read that
  raises clears \<open>connected\<close>.
\<close>

definition Instrument_getRsp :: "reply \<Rightarrow> 'a instrument_scheme \<Rightarrow> string \<times> 'a instrument_scheme" where
  "Instrument_getRsp r i =
     (case r of Data s \<Rightarrow> (s, i) | IOErr \<Rightarrow> ([], i\<lparr>connected := False\<rparr>))"

section \<open>Starting, stopping and releasing a classifier\<close>

text \<open>\<^verbatim>\<open>run()\<close> and \<^verbatim>\<open>stop()\<close>: commands for the Cambustion classes, nothing for the DMAs.\<close>

definition Classifier_run :: "classifier \<Rightarrow> bool \<times> classifier" where
  "Classifier_run c = (if isCambustion (kind c) then sendAndCheck (Cmd ''start'') c else (True, c))"

definition Classifier_stop :: "classifier \<Rightarrow> bool \<times> classifier" where
  "Classifier_stop c = (if isCambustion (kind c) then sendAndCheck (Cmd ''stop'') c else (True, c))"

text \<open>
  \<^verbatim>\<open>__del__\<close>, which \<^verbatim>\<open>del self.firstClass\<close> runs: a Cambustion classifier is stopped, then
  the link is closed.
\<close>

definition Classifier_del :: "classifier \<Rightarrow> classifier" where
  "Classifier_del c = (case Classifier_stop c of (ok, c') \<Rightarrow> c'\<lparr>connected := False\<rparr>)"

text \<open>
  \<^verbatim>\<open>getHeader()\<close>, for what it does to the link: the Cambustion classes ask for the serial
  number; \<^verbatim>\<open>TSI3080.getHeader\<close> reads \<^verbatim>\<open>self.sampleFlow\<close>, which no method of that class
  assigns.
\<close>

definition getHeader :: "classifier \<Rightarrow> unit result" where
  "getHeader c =
     (if isCambustion (kind c) then (Inr (), snd (sendQuery (Cmd ''serial'') c))
      else if sampleFlow c = None then (Inl AttributeError, c)
      else (Inr (), c))"

text \<open>
  \<^verbatim>\<open>StopScan()\<close> and \<^verbatim>\<open>StartScan()\<close> on a stepped classifier, as \<^verbatim>\<open>plotIt\<close> calls them before
  the first bypass sweep. \<^verbatim>\<open>CPMA\<close> and \<^verbatim>\<open>TSI3080\<close> have neither method. A stepped AAC sends
  the interrupt byte in \<^verbatim>\<open>StopScan\<close>, and its \<^verbatim>\<open>StartScan\<close> reads \<^verbatim>\<open>self.ScanUpTime\<close>, which only
  a scanning AAC has.
\<close>

definition StopScan :: "classifier \<Rightarrow> unit result" where
  "StopScan c =
     (case kind c of
        TSI3082 \<Rightarrow> (Inr (), snd (sendAndCheck (Cmd ''DOABORTSCAN'') c))
      | AAC \<Rightarrow> (Inr (), c)
      | _ \<Rightarrow> (Inl AttributeError, c))"

definition StartScan :: "classifier \<Rightarrow> unit result" where
  "StartScan c =
     (case kind c of
        TSI3082 \<Rightarrow> (Inr (), snd (sendAndCheck (Cmd ''DOSCAN'') c))
      | _ \<Rightarrow> (Inl AttributeError, c))"

section \<open>Particle counters and the bypass relay\<close>

datatype cpc_kind = CambustionCPC | TSI30xx | TSI377x | TSI375x | DummyCPC | MagicCpc

text \<open>
  \<open>randoms\<close> are the future values of \<^verbatim>\<open>random.random()\<close>, for the dummy counter.
\<close>

record cpc = instrument +
  cpc_kind :: cpc_kind
  randoms :: "real list"

record cpc_args =
  k_isSerial :: bool
  k_link :: bool
  k_writes :: "nat \<Rightarrow> bool"
  k_reads :: "nat \<Rightarrow> reply"
  k_randoms :: "real list"

definition CPC_init :: "cpc_kind \<Rightarrow> cpc_args \<Rightarrow> cpc" where
  "CPC_init k a =
     (let c0 = \<lparr>isSerial = k_isSerial a, connected = False, lastResponse = [], sent = [],
                 writes = k_writes a, reads = k_reads a, nreads = 0, cpc_kind = k,
                 randoms = k_randoms a\<rparr>;
          (ok, c1) =
            (if k = DummyCPC then (True, c0)
             else if \<not> k_link a then (False, c0)
             else if k = CambustionCPC then
               (let (r, c') = getRsp c0 in (match r ''Cambustion CPC'', c'))
             else (True, c0))
      in c1\<lparr>connected := ok, lastResponse := []\<rparr>)"

text \<open>
  \<^verbatim>\<open>conc()\<close>. A TSI counter on a network link returns \<^verbatim>\<open>None\<close>. \<^verbatim>\<open>MagicCpc\<close> reads a line that
  the counter sends by itself and takes its second field.
\<close>

definition read_float :: "(string \<Rightarrow> real option) \<Rightarrow> string \<Rightarrow> py_error + real option" where
  "read_float pyfloat t = (case pyfloat t of None \<Rightarrow> Inl ValueError | Some v \<Rightarrow> Inr (Some v))"

definition CPC_conc ::
  "(string \<Rightarrow> real option) \<Rightarrow> cpc \<Rightarrow> (py_error + real option) \<times> cpc" where
  "CPC_conc pyfloat c =
     (case cpc_kind c of
        DummyCPC \<Rightarrow>
          (case randoms c of
             [] \<Rightarrow> (Inr (Some 0), c)
           | u # us \<Rightarrow> (Inr (Some (u * 1000)), c\<lparr>randoms := us\<rparr>))
      | CambustionCPC \<Rightarrow>
          (let (r, c1) = sendQuery (Cmd ''GCS'') c in (read_float pyfloat r, c1))
      | MagicCpc \<Rightarrow>
          (let (r, c1) = getRsp c
           in case split_on (CHR '','') r of
                a # b # rest \<Rightarrow> (read_float pyfloat b, c1)
              | _ \<Rightarrow> (Inl IndexError, c1))
      | _ \<Rightarrow>
          (if isSerial c then
             (let (r, c1) = sendQuery (Cmd ''RD'') c in (read_float pyfloat r, c1))
           else (Inr None, c)))"

text \<open>
  \<^verbatim>\<open>startpoll()\<close> and \<^verbatim>\<open>endpoll()\<close> do nothing, except that those of \<^verbatim>\<open>MagicCpc\<close> call
  \<^verbatim>\<open>self.SendCmd\<close>, a method that does not exist.
\<close>

definition CPC_poll :: "cpc \<Rightarrow> py_error + unit" where
  "CPC_poll c = (if cpc_kind c = MagicCpc then Inl AttributeError else Inr ())"

text \<open>\<^verbatim>\<open>Arduino.enableBypass\<close>: the relay is told \<^verbatim>\<open>on\<close> when the link is up.\<close>

definition Arduino_init :: "bool \<Rightarrow> (nat \<Rightarrow> bool) \<Rightarrow> instrument" where
  "Arduino_init link ws =
     \<lparr>isSerial = True, connected = link, lastResponse = [], sent = [], writes = ws,
      reads = (\<lambda>n. Data []), nreads = 0\<rparr>"

definition enableBypass :: "instrument \<Rightarrow> instrument" where
  "enableBypass a = (if connected a then sendCmd (Cmd ''on'') a else a)"

section \<open>The window and its scan\<close>

datatype device = First | Second | Counter

datatype site = Status | Settle | Averaging

datatype cell = Num real | Str string

text \<open>
  The attributes of the window that the scan uses, the settings it reads from the form
  (\<open>Bypass_isChecked\<close>, \<open>firstDelay\<close>, \<open>secondDelay\<close> and \<open>average\<close>, already read as
  numbers), its environment and what an observer sees.
  \<^item> \<open>timer\<close> tells whether the timer that calls \<^verbatim>\<open>check\<close> is running.
  \<^item> \<open>file_open\<close> and \<open>rows\<close> are the log file: the data rows written by
    \<^verbatim>\<open>self.writer.writerow(self.fileData)\<close>, in order. The header rows are not kept.
  \<^item> \<open>stops\<close> is the environment of \<^verbatim>\<open>app.processEvents()\<close>: for each future call made while
    a scan may run, whether the Stop button is pressed during it. \<open>clock\<close> holds the future
    readings of \<^verbatim>\<open>time.time()\<close>.
  \<^item> \<open>released\<close> lists the devices whose objects have been deleted, in the order of deletion,
    each with the log of the commands it was sent. \<open>samples\<close> counts the calls of
    \<^verbatim>\<open>self.cpc.conc()\<close>. \<open>cancelled_in\<close> records at which kind of call site a press of Stop
    ended the scan. \<open>warnings\<close> are the message boxes shown.
  An attribute that \<^verbatim>\<open>del\<close> removed is \<open>None\<close>. Drawing is left out.
\<close>

record ui =
  Bypass_isChecked :: bool
  firstDelay :: real
  secondDelay :: real
  average :: int
  isScanning :: bool
  timer :: bool
  doBypass :: bool
  startRow :: bool
  finalBypass :: bool
  firstBypass :: bool
  disBypass :: bool
  Scatterplot :: bool
  firstClass :: "classifier option"
  secondClass :: "classifier option"
  cpc :: "cpc option"
  arduino :: "instrument option"
  Z :: "real list list"
  G :: "real list"
  fileData :: "string \<rightharpoonup> cell"
  file_open :: bool
  rows :: "(string \<rightharpoonup> cell) list"
  stops :: "bool list"
  clock :: "real list"
  released :: "(device \<times> command list) list"
  samples :: nat
  cancelled_in :: "site option"
  warnings :: "string list"

type_synonym 'a uires = "(py_error + 'a) \<times> ui"

text \<open>What a part of a method does next: go on with a value, \<^verbatim>\<open>return\<close>, or raise.\<close>

datatype 'a flow = Go 'a | Return | Raise py_error

text \<open>A method call on \<^verbatim>\<open>self.firstClass\<close> or \<^verbatim>\<open>self.secondClass\<close>.\<close>

definition run_classifier :: "classifier \<Rightarrow> bool result" where
  "run_classifier c = (case Classifier_run c of (ok, c') \<Rightarrow> (Inr ok, c'))"



definition first_call :: "(classifier \<Rightarrow> 'a result) \<Rightarrow> ui \<Rightarrow> 'a uires" where
  "first_call f s =
     (case firstClass s of
        None \<Rightarrow> (Inl AttributeError, s)
      | Some c \<Rightarrow> (case f c of (r, c') \<Rightarrow> (r, s\<lparr>firstClass := Some c'\<rparr>)))"

definition second_call :: "(classifier \<Rightarrow> 'a result) \<Rightarrow> ui \<Rightarrow> 'a uires" where
  "second_call f s =
     (case secondClass s of
        None \<Rightarrow> (Inl AttributeError, s)
      | Some c \<Rightarrow> (case f c of (r, c') \<Rightarrow> (r, s\<lparr>secondClass := Some c'\<rparr>)))"

text \<open>\<^verbatim>\<open>del self.firstClass\<close>, \<^verbatim>\<open>del self.secondClass\<close>, \<^verbatim>\<open>del self.cpc\<close>.\<close>

definition del_first :: "ui \<Rightarrow> unit uires" where
  "del_first s =
     (case firstClass s of
        None \<Rightarrow> (Inl AttributeError, s)
      | Some c \<Rightarrow>
          (Inr (), s\<lparr>firstClass := None,
                      released := released s @ [(First, sent (Classifier_del c))]\<rparr>))"

definition del_second :: "ui \<Rightarrow> unit uires" where
  "del_second s =
     (case secondClass s of
        None \<Rightarrow> (Inl AttributeError, s)
      | Some c \<Rightarrow>
          (Inr (), s\<lparr>secondClass := None,
                      released := released s @ [(Second, sent (Classifier_del c))]\<rparr>))"

definition del_cpc :: "ui \<Rightarrow> unit uires" where
  "del_cpc s =
     (case cpc s of
        None \<Rightarrow> (Inl AttributeError, s)
      | Some c \<Rightarrow> (Inr (), s\<lparr>cpc := None, released := released s @ [(Counter, sent c)]\<rparr>))"

text \<open>
  \<^verbatim>\<open>endScan\<close>: nothing when no scan runs. Otherwise the file is closed, the flag and the
  timer are cleared, pending events are processed once (a press of Stop there finds no scan
  to end), and the three objects are deleted: first classifier, second classifier, counter.
\<close>

definition Ui_endScan :: "ui \<Rightarrow> unit uires" where
  "Ui_endScan s =
     (if \<not> isScanning s then (Inr (), s)
      else
        (let s1 = s\<lparr>file_open := False, isScanning := False, timer := False,
                     stops := drop 1 (stops s)\<rparr>
         in case del_first s1 of
              (Inl e, s2) \<Rightarrow> (Inl e, s2)
            | (Inr u, s2) \<Rightarrow>
                (case del_second s2 of
                   (Inl e, s3) \<Rightarrow> (Inl e, s3)
                 | (Inr u, s3) \<Rightarrow> del_cpc s3)))"

definition Ui_barf :: "string \<Rightarrow> ui \<Rightarrow> unit uires" where
  "Ui_barf message s =
     (case Ui_endScan s of
        (Inl e, s1) \<Rightarrow> (Inl e, s1)
      | (Inr u, s1) \<Rightarrow> (Inr (), s1\<lparr>warnings := warnings s1 @ [message]\<rparr>))"

text \<open>
  Modelled from the spec: the Stop button of the form, whose connection to \<^verbatim>\<open>endScan\<close> is in
  the form file \<^verbatim>\<open>tandem.ui\<close> and not in the sources. \<^verbatim>\<open>app.processEvents()\<close> at a call site
  of kind \<open>site\<close> takes the next outcome from \<open>stops\<close>; when Stop is pressed, \<^verbatim>\<open>endScan\<close> runs
  inside the call, and the site is recorded if that ended a scan. An exception raised inside
  the slot does not reach the caller.
\<close>

definition processEvents :: "site \<Rightarrow> ui \<Rightarrow> ui" where
  "processEvents st s =
     (case stops s of
        [] \<Rightarrow> s
      | pressed # bs \<Rightarrow>
          (if pressed \<and> isScanning s
           then snd (Ui_endScan (s\<lparr>stops := bs, cancelled_in := Some st\<rparr>))
           else s\<lparr>stops := bs\<rparr>))"

text \<open>
  \<^verbatim>\<open>updateStatus\<close>: the message reads the indices of the classifiers (of the second one only
  during a bypass sweep), then events are processed.
\<close>

definition Ui_updateStatus :: "ui \<Rightarrow> unit uires" where
  "Ui_updateStatus s =
     (if (if doBypass s then secondClass s = None
          else firstClass s = None \<or> secondClass s = None)
      then (Inl AttributeError, s)
      else (Inr (), processEvents Status s))"

text \<open>
  The settle delay: \<^verbatim>\<open>int(float(text)*10.0)\<close> turns of \<^verbatim>\<open>time.sleep(0.1)\<close>,
  \<^verbatim>\<open>app.processEvents()\<close> and a look at \<^verbatim>\<open>isScanning\<close>. The result tells whether the caller
  goes on.
\<close>

definition delay_steps :: "real \<Rightarrow> nat" where
  "delay_steps d = nat \<lfloor>d * 10\<rfloor>"

fun settle :: "nat \<Rightarrow> ui \<Rightarrow> bool \<times> ui" where
  "settle 0 s = (True, s)"
| "settle (Suc n) s =
     (let s1 = processEvents Settle s
      in if \<not> isScanning s1 then (False, s1) else settle n s1)"

text \<open>Assignments to entries of the numpy arrays \<^verbatim>\<open>G\<close> and \<^verbatim>\<open>Z\<close>.\<close>

definition np_index :: "nat \<Rightarrow> int \<Rightarrow> nat option" where
  "np_index n i =
     (if 0 \<le> i \<and> i < int n then Some (nat i)
      else if i < 0 \<and> - i \<le> int n then Some (nat (int n + i))
      else None)"

definition set_G :: "real list \<Rightarrow> int \<Rightarrow> real \<Rightarrow> py_error + real list" where
  "set_G g j v = (case np_index (length g) j of None \<Rightarrow> Inl IndexError | Some b \<Rightarrow> Inr (g[b := v]))"

definition set_Z :: "real list list \<Rightarrow> int \<Rightarrow> int \<Rightarrow> real \<Rightarrow> py_error + real list list" where
  "set_Z z i j v =
     (case np_index (length z) i of
        None \<Rightarrow> Inl IndexError
      | Some a \<Rightarrow>
          (case np_index (length (z ! a)) j of
             None \<Rightarrow> Inl IndexError
           | Some b \<Rightarrow> Inr (z[a := (z ! a)[b := v]])))"

text \<open>
  The pacing loop of \<^verbatim>\<open>plotIt\<close>,
  \<^verbatim>\<open>while (time.time()-tzero < 1.0): app.processEvents(); ...; tzero = time.time()\<close>, over the
  clock readings still to come (those of the state it is called in). The result is the time
  mark at the end.
\<close>

fun pacing :: "real list \<Rightarrow> real \<Rightarrow> ui \<Rightarrow> real flow \<times> ui" where
  "pacing [] tzero s = (Raise OutOfFuel, s)"
| "pacing (now # ts) tzero s =
     (if now - tzero < 1 then
        (let s1 = processEvents Averaging (s\<lparr>clock := ts\<rparr>)
         in if \<not> isScanning s1 then (Return, s1)
            else (case ts of
                    [] \<Rightarrow> (Raise OutOfFuel, s1)
                  | now' # ts' \<Rightarrow> pacing ts' now' (s1\<lparr>clock := ts'\<rparr>)))
      else (Go tzero, s\<lparr>clock := ts\<rparr>))"

text \<open>\<^verbatim>\<open>conc += self.cpc.conc()\<close>.\<close>

definition add_conc :: "(string \<Rightarrow> real option) \<Rightarrow> real \<Rightarrow> ui \<Rightarrow> real uires" where
  "add_conc pyfloat conc s =
     (case cpc s of
        None \<Rightarrow> (Inl AttributeError, s)
      | Some c \<Rightarrow>
          (case CPC_conc pyfloat c of
             (r, c') \<Rightarrow>
               (let s1 = s\<lparr>cpc := Some c', samples := Suc (samples s)\<rparr>
                in case r of
                     Inl e \<Rightarrow> (Inl e, s1)
                   | Inr None \<Rightarrow> (Inl TypeError, s1)
                   | Inr (Some v) \<Rightarrow> (Inr (conc + v), s1))))"

text \<open>
  The averaging loop of \<^verbatim>\<open>plotIt\<close>, \<^verbatim>\<open>for i in range(ave)\<close>, with the sum \<open>conc\<close> and the time
  mark \<open>tzero\<close> that it carries from turn to turn.
\<close>

fun averaging ::
  "(string \<Rightarrow> real option) \<Rightarrow> nat \<Rightarrow> real \<Rightarrow> real \<Rightarrow> ui \<Rightarrow> real flow \<times> ui" where
  "averaging pyfloat 0 conc tzero s = (Go conc, s)"
| "averaging pyfloat (Suc n) conc tzero s =
     (if \<not> isScanning s then (Return, s)
      else
        (case (if doBypass s then (Inr (), s) else first_call (Classifier_monitor pyfloat) s) of
           (Inl e, s1) \<Rightarrow> (Raise e, s1)
         | (Inr u, s1) \<Rightarrow>
             (let s2 = processEvents Averaging s1
              in if \<not> isScanning s2 then (Return, s2)
                 else
                   (case second_call (Classifier_monitor pyfloat) s2 of
                      (Inl e, s3) \<Rightarrow> (Raise e, s3)
                    | (Inr u, s3) \<Rightarrow>
                        (case add_conc pyfloat conc (processEvents Averaging s3) of
                           (Inl e, s5) \<Rightarrow> (Raise e, s5)
                         | (Inr conc', s5) \<Rightarrow>
                             (case pacing (clock s5) tzero s5 of
                                (Raise e, s6) \<Rightarrow> (Raise e, s6)
                              | (Return, s6) \<Rightarrow> (Return, s6)
                              | (Go tzero', s6) \<Rightarrow> averaging pyfloat n conc' tzero' s6))))))"

text \<open>The steps of \<^verbatim>\<open>plotIt\<close> for a stepped scan, in the order of the source.\<close>

definition time_time :: "ui \<Rightarrow> real uires" where
  "time_time s = (case clock s of [] \<Rightarrow> (Inl OutOfFuel, s) | now # ts \<Rightarrow> (Inr now, s\<lparr>clock := ts\<rparr>))"

text \<open>\<^verbatim>\<open>color_value = self.firstClass.point / (self.firstClass.points)\<close>.\<close>

definition color_value :: "ui \<Rightarrow> py_error + real" where
  "color_value s =
     (case firstClass s of
        None \<Rightarrow> Inl AttributeError
      | Some c \<Rightarrow> float_div (of_int (point c)) (of_int (points c)))"

text \<open>\<^verbatim>\<open>self.arduino.enableBypass()\<close>; without the bypass option \<^verbatim>\<open>self.arduino\<close> is the class
  itself and the call lacks its argument.\<close>

definition Ui_enableBypass :: "ui \<Rightarrow> unit uires" where
  "Ui_enableBypass s =
     (case arduino s of
        None \<Rightarrow> (Inl TypeError, s)
      | Some a \<Rightarrow> (Inr (), s\<lparr>arduino := Some (enableBypass a)\<rparr>))"

text \<open>The block of \<^verbatim>\<open>plotIt\<close> under \<^verbatim>\<open>if (self.doBypass and self.firstBypass)\<close>.\<close>

definition first_bypass_setup :: "ui \<Rightarrow> unit uires" where
  "first_bypass_setup s =
     (if doBypass s \<and> firstBypass s then
        (case second_call StopScan s of
           (Inl e, s1) \<Rightarrow> (Inl e, s1)
         | (Inr u, s1) \<Rightarrow>
             (case Ui_enableBypass s1 of
                (Inl e, s2) \<Rightarrow> (Inl e, s2)
              | (Inr u, s2) \<Rightarrow>
                  (case second_call StartScan s2 of
                     (Inl e, s3) \<Rightarrow> (Inl e, s3)
                   | (Inr u, s3) \<Rightarrow> (Inr (), s3\<lparr>firstBypass := False\<rparr>))))
      else (Inr (), s))"

definition Ui_poll :: "ui \<Rightarrow> py_error + unit" where
  "Ui_poll s = (case cpc s of None \<Rightarrow> Inl AttributeError | Some c \<Rightarrow> CPC_poll c)"

text \<open>
  \<^verbatim>\<open>for item, data in secData.items(): self.fileData[item + str(2)] = data\<close>, and the merge
  of a dict of numbers into the row.
\<close>

definition add_second :: "(string \<rightharpoonup> real) \<Rightarrow> (string \<rightharpoonup> cell) \<Rightarrow> (string \<rightharpoonup> cell)" where
  "add_second d fd =
     (\<lambda>key. case (if key \<noteq> [] \<and> last key = CHR ''2'' then d (butlast key) else None) of
               Some v \<Rightarrow> Some (Num v)
             | None \<Rightarrow> fd key)"

definition add_numbers :: "(string \<rightharpoonup> real) \<Rightarrow> (string \<rightharpoonup> cell) \<Rightarrow> (string \<rightharpoonup> cell)" where
  "add_numbers d fd = (\<lambda>key. case d key of Some v \<Rightarrow> Some (Num v) | None \<Rightarrow> fd key)"

definition bypassDummy :: "kind \<Rightarrow> (string \<rightharpoonup> cell) \<Rightarrow> (string \<rightharpoonup> cell)" where
  "bypassDummy k fd = (\<lambda>key. if key \<in> set (fileFields k) then Some (Str ''Bypassed'') else fd key)"

text \<open>
  The part of \<^verbatim>\<open>plotIt\<close> after the averaging: the row is completed and the concentration is
  stored, in \<^verbatim>\<open>G\<close> during a bypass sweep and in \<^verbatim>\<open>Z\<close> and \<^verbatim>\<open>G\<close> otherwise; the legend of the
  plot reads \<^verbatim>\<open>X[point-1]\<close> of the first classifier when a sweep has just begun.
\<close>

definition record_bypass :: "real \<Rightarrow> ui \<Rightarrow> unit uires" where
  "record_bypass conc s =
     (case firstClass s of None \<Rightarrow> (Inl AttributeError, s) | Some c1 \<Rightarrow>
      (let s1 = s\<lparr>fileData := bypassDummy (kind c1) (fileData s)\<rparr>
       in case secondClass s1 of None \<Rightarrow> (Inl AttributeError, s1) | Some c2 \<Rightarrow>
          (case set_G (G s1) (point c2) conc of
             Inl e \<Rightarrow> (Inl e, s1)
           | Inr g \<Rightarrow> (Inr (), s1\<lparr>G := g\<rparr>))))"

definition record_classified :: "real \<Rightarrow> ui \<Rightarrow> unit uires" where
  "record_classified conc s =
     (case firstClass s of None \<Rightarrow> (Inl AttributeError, s) | Some c1 \<Rightarrow>
      (case getFileData c1 of Inl e \<Rightarrow> (Inl e, s) | Inr d1 \<Rightarrow>
       (let s1 = s\<lparr>fileData := add_numbers d1 (fileData s)\<rparr>
        in case secondClass s1 of None \<Rightarrow> (Inl AttributeError, s1) | Some c2 \<Rightarrow>
           (case set_Z (Z s1) (point c1) (point c2) conc of
              Inl e \<Rightarrow> (Inl e, s1)
            | Inr z \<Rightarrow>
                (let s2 = s1\<lparr>Z := z\<rparr>
                 in case (if Scatterplot s2 then
                            (case py_get (setpoints_X c1) (point c1 - 1) of
                               Inl e \<Rightarrow> (Inl e, s2)
                             | Inr v \<Rightarrow>
                                 (Inr (), s2\<lparr>Scatterplot := False,
                                              G := replicate (nat (points c2)) 0\<rparr>))
                          else (Inr (), s2)) of
                      (Inl e, s3) \<Rightarrow> (Inl e, s3)
                    | (Inr u, s3) \<Rightarrow>
                        (case set_G (G s3) (point c2) conc of
                           Inl e \<Rightarrow> (Inl e, s3)
                         | Inr g \<Rightarrow> (Inr (), s3\<lparr>G := g\<rparr>)))))))"

text \<open>\<^verbatim>\<open>self.writer.writerow(self.fileData)\<close>: writing to the closed file raises.\<close>

definition writerow :: "ui \<Rightarrow> unit uires" where
  "writerow s =
     (if file_open s then (Inr (), s\<lparr>rows := rows s @ [fileData s]\<rparr>)
      else (Inl ValueError, s))"

definition record_row :: "real \<Rightarrow> ui \<Rightarrow> unit uires" where
  "record_row conc s =
     (case second_call (\<lambda>c. (getFileData c, c)) s of
        (Inl e, s1) \<Rightarrow> (Inl e, s1)
      | (Inr secData, s1) \<Rightarrow>
          (let s2 = s1\<lparr>fileData := (add_second secData (fileData s1))(''Conc '' \<mapsto> Num conc)\<rparr>
           in case (if doBypass s2 then record_bypass conc s2 else record_classified conc s2) of
                (Inl e, s3) \<Rightarrow> (Inl e, s3)
              | (Inr u, s3) \<Rightarrow>
                  (case writerow s3 of
                     (Inl e, s4) \<Rightarrow> (Inl e, s4)
                   | (Inr u, s4) \<Rightarrow> Ui_updateStatus s4)))"

text \<open>
  \<^verbatim>\<open>plotIt\<close>: the status; then the time mark, the colour, the set-up of the first bypass
  sweep, the averaging between \<^verbatim>\<open>startpoll\<close> and \<^verbatim>\<open>endpoll\<close>, the mean
  \<^verbatim>\<open>conc /= float(ave)\<close>, and the row.
\<close>

definition measure_point :: "(string \<Rightarrow> real option) \<Rightarrow> ui \<Rightarrow> unit uires" where
  "measure_point pyfloat s1 =
     (case time_time s1 of (Inl e, s2) \<Rightarrow> (Inl e, s2) | (Inr tzero, s2) \<Rightarrow>
      (case color_value s2 of Inl e \<Rightarrow> (Inl e, s2) | Inr colour \<Rightarrow>
       (case first_bypass_setup s2 of (Inl e, s3) \<Rightarrow> (Inl e, s3) | (Inr u, s3) \<Rightarrow>
        (case Ui_poll s3 of Inl e \<Rightarrow> (Inl e, s3) | Inr u \<Rightarrow>
         (case averaging pyfloat (nat (average s3)) 0 tzero s3 of
            (Raise e, s4) \<Rightarrow> (Inl e, s4)
          | (Return, s4) \<Rightarrow> (Inr (), s4)
          | (Go csum, s4) \<Rightarrow>
              (case Ui_poll s4 of Inl e \<Rightarrow> (Inl e, s4) | Inr u \<Rightarrow>
               (case float_div csum (of_int (average s4)) of
                  Inl e \<Rightarrow> (Inl e, s4)
                | Inr conc \<Rightarrow> record_row conc s4)))))))"

definition Ui_plotIt :: "(string \<Rightarrow> real option) \<Rightarrow> ui \<Rightarrow> unit uires" where
  "Ui_plotIt pyfloat s =
     (case Ui_updateStatus s of
        (Inl e, s1) \<Rightarrow> (Inl e, s1)
      | (Inr u, s1) \<Rightarrow> measure_point pyfloat s1)"

text \<open>
  \<^verbatim>\<open>Ui.next\<close> for a stepped scan: when the inner sweep is exhausted, the scan ends, or the
  final bypass sweep begins, or the first classifier advances; then the second classifier
  is set to its next point.
\<close>

definition end_of_sweep :: "ui \<Rightarrow> unit flow \<times> ui" where
  "end_of_sweep s =
     (let s1 = s\<lparr>Scatterplot := True, doBypass := False\<rparr>
      in case firstClass s1 of None \<Rightarrow> (Raise AttributeError, s1) | Some c1 \<Rightarrow>
         (case (if \<not> moreToCome c1 then
                  (if finalBypass s1 \<or> \<not> Bypass_isChecked s1 then
                     (case py_get (setpoints_X c1) (point c1 - 1) of
                        Inl e \<Rightarrow> (Raise e, s1)
                      | Inr v \<Rightarrow>
                          (case Ui_endScan s1 of
                             (Inl e, s2) \<Rightarrow> (Raise e, s2)
                           | (Inr u, s2) \<Rightarrow> (Return, s2)))
                   else
                     (case Ui_enableBypass
                             (s1\<lparr>doBypass := True, finalBypass := True, disBypass := True\<rparr>) of
                        (Inl e, s2) \<Rightarrow> (Raise e, s2)
                      | (Inr u, s2) \<Rightarrow>
                          (case second_call run_classifier s2 of
                             (Inl e, s3) \<Rightarrow> (Raise e, s3)
                           | (Inr ok, s3) \<Rightarrow> (Go (), s3))))
                else (Go (), s1)) of
            (Raise e, s4) \<Rightarrow> (Raise e, s4)
          | (Return, s4) \<Rightarrow> (Return, s4)
          | (Go u, s4) \<Rightarrow>
              (case second_call (\<lambda>c. (Inr (), reset c)) s4 of
                 (Inl e, s5) \<Rightarrow> (Raise e, s5)
               | (Inr u, s5) \<Rightarrow>
                   (let s6 = s5\<lparr>fileData := Map.empty, startRow := True\<rparr>
                    in if doBypass s6 then (Go (), s6)
                       else
                         (case first_call Classifier_next s6 of
                            (Inl e, s7) \<Rightarrow> (Raise e, s7)
                          | (Inr ok, s7) \<Rightarrow>
                              (if ok then (Go (), s7)
                               else
                                 (case Ui_barf ''Failed to set first classifier'' s7 of
                                    (Inl e, s8) \<Rightarrow> (Raise e, s8)
                                  | (Inr u, s8) \<Rightarrow> (Return, s8))))))))"

definition Ui_next :: "(string \<Rightarrow> real option) \<Rightarrow> ui \<Rightarrow> unit uires" where
  "Ui_next pyfloat s =
     (case Ui_plotIt pyfloat s of (Inl e, s1) \<Rightarrow> (Inl e, s1) | (Inr u, s1) \<Rightarrow>
      (if \<not> isScanning s1 then (Inr (), s1)
       else
         (case secondClass s1 of None \<Rightarrow> (Inl AttributeError, s1) | Some c2 \<Rightarrow>
          (case (if \<not> moreToCome c2 then end_of_sweep s1 else (Go (), s1)) of
             (Raise e, s2) \<Rightarrow> (Inl e, s2)
           | (Return, s2) \<Rightarrow> (Inr (), s2)
           | (Go u, s2) \<Rightarrow>
               (case second_call Classifier_next s2 of
                  (Inl e, s3) \<Rightarrow> (Inl e, s3)
                | (Inr ok, s3) \<Rightarrow>
                    (if ok then (Inr (), s3)
                     else Ui_barf ''Failed to set second classifier'' s3))))))"

text \<open>
  \<^verbatim>\<open>check\<close>, the slot of the timer, for a stepped scan. The timer is stopped on entry and
  started again on the paths that reach \<^verbatim>\<open>self.timer.start(1)\<close>.
\<close>

definition delay_and_next :: "(string \<Rightarrow> real option) \<Rightarrow> ui \<Rightarrow> unit uires" where
  "delay_and_next pyfloat s2 =
     (case settle (delay_steps (secondDelay s2)) s2 of
        (False, s3) \<Rightarrow> (Inr (), s3)
      | (True, s3) \<Rightarrow>
          (case Ui_next pyfloat s3 of
             (Inl e, s4) \<Rightarrow> (Inl e, s4)
           | (Inr u, s4) \<Rightarrow>
               (if \<not> isScanning s4 then (Inr (), s4)
                else (Inr (), s4\<lparr>timer := True\<rparr>))))"

definition inner_step :: "(string \<Rightarrow> real option) \<Rightarrow> ui \<Rightarrow> unit uires" where
  "inner_step pyfloat s =
     (case second_call (isReady pyfloat) s of
        (Inl e, s1) \<Rightarrow> (Inl e, s1)
      | (Inr ready, s1) \<Rightarrow>
          (if ready then
             (case Ui_updateStatus (s1\<lparr>timer := False\<rparr>) of
                (Inl e, s2) \<Rightarrow> (Inl e, s2)
              | (Inr u, s2) \<Rightarrow> delay_and_next pyfloat s2)
           else
             (case Ui_updateStatus s1 of
                (Inl e, s2) \<Rightarrow> (Inl e, s2)
              | (Inr u, s2) \<Rightarrow> (Inr (), s2\<lparr>timer := True\<rparr>))))"

definition delay_and_inner :: "(string \<Rightarrow> real option) \<Rightarrow> ui \<Rightarrow> unit uires" where
  "delay_and_inner pyfloat s2 =
     (case settle (delay_steps (firstDelay s2)) s2 of
        (False, s3) \<Rightarrow> (Inr (), s3)
      | (True, s3) \<Rightarrow> inner_step pyfloat s3)"

definition Ui_check :: "(string \<Rightarrow> real option) \<Rightarrow> ui \<Rightarrow> unit uires" where
  "Ui_check pyfloat s =
     (let s0 = s\<lparr>timer := False\<rparr>
      in if startRow s0 then
           (case (if doBypass s0 then (Inr True, s0) else first_call (isReady pyfloat) s0) of
              (Inl e, s1) \<Rightarrow> (Inl e, s1)
            | (Inr ready, s1) \<Rightarrow>
                (if ready then
                   (case Ui_updateStatus (s1\<lparr>startRow := False\<rparr>) of
                      (Inl e, s2) \<Rightarrow> (Inl e, s2)
                    | (Inr u, s2) \<Rightarrow> delay_and_inner pyfloat s2)
                 else
                   (case Ui_updateStatus s1 of
                      (Inl e, s2) \<Rightarrow> (Inl e, s2)
                    | (Inr u, s2) \<Rightarrow> (Inr (), s2\<lparr>timer := True\<rparr>))))
         else inner_step pyfloat s0)"

section \<open>Starting a scan and running it\<close>

text \<open>
  What \<^verbatim>\<open>runScan\<close> reads from the form, and the environment of the scan. Opening the log
  file is taken to succeed.
\<close>

record scan_cfg =
  g_first :: kind
  g_first_args :: ctor_args
  g_second :: kind
  g_second_args :: ctor_args
  g_cpc :: cpc_kind
  g_cpc_args :: cpc_args
  g_arduino_link :: bool
  g_arduino_writes :: "nat \<Rightarrow> bool"
  g_Bypass :: bool
  g_firstDelay :: real
  g_secondDelay :: real
  g_average :: int
  g_stops :: "bool list"
  g_clock :: "real list"

definition new_ui :: "scan_cfg \<Rightarrow> ui" where
  "new_ui g =
     \<lparr>Bypass_isChecked = g_Bypass g, firstDelay = g_firstDelay g,
      secondDelay = g_secondDelay g, average = g_average g,
      isScanning = False, timer = False, doBypass = False, startRow = False,
      finalBypass = False, firstBypass = False, disBypass = False, Scatterplot = False,
      firstClass = None, secondClass = None, cpc = None, arduino = None,
      Z = [], G = [], fileData = Map.empty, file_open = False, rows = [],
      stops = g_stops g, clock = g_clock g, released = [], samples = 0,
      cancelled_in = None, warnings = []\<rparr>"

text \<open>The error exits of \<^verbatim>\<open>runScan\<close>: a message, then the objects made so far are deleted.\<close>

fun delete_all :: "(ui \<Rightarrow> unit uires) list \<Rightarrow> ui \<Rightarrow> unit uires" where
  "delete_all [] s = (Inr (), s)"
| "delete_all (d # ds) s =
     (case d s of (Inl e, s1) \<Rightarrow> (Inl e, s1) | (Inr u, s1) \<Rightarrow> delete_all ds s1)"

definition give_up :: "string \<Rightarrow> (ui \<Rightarrow> unit uires) list \<Rightarrow> ui \<Rightarrow> unit uires" where
  "give_up message ds s =
     (case Ui_barf message s of (Inl e, s1) \<Rightarrow> (Inl e, s1) | (Inr u, s1) \<Rightarrow> delete_all ds s1)"

text \<open>\<^verbatim>\<open>startRawLog\<close>: the file is opened and the headers of both classifiers are fetched.\<close>

definition startRawLog :: "ui \<Rightarrow> unit uires" where
  "startRawLog s =
     (case first_call getHeader (s\<lparr>file_open := True\<rparr>) of
        (Inl e, s1) \<Rightarrow> (Inl e, s1)
      | (Inr u, s1) \<Rightarrow>
          (case second_call getHeader s1 of
             (Inl e, s2) \<Rightarrow> (Inl e, s2)
           | (Inr u, s2) \<Rightarrow> (Inr (), s2\<lparr>fileData := Map.empty\<rparr>)))"

text \<open>
  The last part of \<^verbatim>\<open>runScan\<close>, from \<^verbatim>\<open>self.isScanning = True\<close>: the first setpoints, the
  relay, the log and the timer.
\<close>

definition begin_scan :: "ui \<Rightarrow> unit uires" where
  "begin_scan s =
     (let s0 = s\<lparr>isScanning := True\<rparr>
      in case (if doBypass s0 then (Inr True, s0) else first_call Classifier_next s0) of
           (Inl e, s1) \<Rightarrow> (Inl e, s1)
         | (Inr ok1, s1) \<Rightarrow>
             (if \<not> ok1 then Ui_barf ''Failed to set first classifier'' s1
              else
                (case second_call Classifier_next s1 of
                   (Inl e, s2) \<Rightarrow> (Inl e, s2)
                 | (Inr ok2, s2) \<Rightarrow>
                     (if \<not> ok2 then Ui_barf ''Failed to set second classifier'' s2
                      else
                        (case (if doBypass s2 then Ui_enableBypass s2 else (Inr (), s2)) of
                           (Inl e, s3) \<Rightarrow> (Inl e, s3)
                         | (Inr u, s3) \<Rightarrow>
                             (case startRawLog s3 of
                                (Inl e, s4) \<Rightarrow> (Inl e, s4)
                              | (Inr u, s4) \<Rightarrow>
                                  (Inr (), s4\<lparr>startRow := True, finalBypass := False,
                                               firstBypass := True, disBypass := True,
                                               timer := True\<rparr>)))))))"

text \<open>
  \<^verbatim>\<open>runScan\<close> from the construction of the first classifier: the three objects are made and
  checked, the classifiers are started, the arrays are allocated, and the scan begins. The
  colour map divides by the number of points of the first classifier.
\<close>

definition start_devices :: "ui \<Rightarrow> unit uires" where
  "start_devices s =
     (case first_call run_classifier s of
        (Inl e, s1) \<Rightarrow> (Inl e, s1)
      | (Inr ok1, s1) \<Rightarrow>
          (if \<not> ok1 then give_up ''Can't start first classifier'' [del_second, del_first, del_cpc] s1
           else
             (case second_call run_classifier s1 of
                (Inl e, s2) \<Rightarrow> (Inl e, s2)
              | (Inr ok2, s2) \<Rightarrow>
                  (if \<not> ok2
                   then give_up ''Can't start second classifier'' [del_second, del_first, del_cpc] s2
                   else
                     (case (firstClass s2, secondClass s2) of
                        (Some c1, Some c2) \<Rightarrow>
                          (let s3 = s2\<lparr>Z := replicate (nat (points c1))
                                               (replicate (nat (points c2)) 0),
                                        G := replicate (nat (points c2)) 0\<rparr>
                           in if points c1 = 0 then (Inl ZeroDivisionError, s3)
                              else begin_scan s3)
                      | _ \<Rightarrow> (Inl AttributeError, s2))))))"

definition Ui_runScan :: "(string \<Rightarrow> real option) \<Rightarrow> scan_cfg \<Rightarrow> unit uires" where
  "Ui_runScan pyfloat g =
     (let s = (new_ui g)\<lparr>Scatterplot := False\<rparr>
      in case new_classifier pyfloat (g_first g) (g_first_args g) of
           Inl e \<Rightarrow> (Inl e, s)
         | Inr c1 \<Rightarrow>
             (let s1 = s\<lparr>firstClass := Some c1\<rparr>
              in if \<not> connected c1
                 then give_up ''Connection Error to First Classifier'' [del_first] s1
                 else
                   (case new_classifier pyfloat (g_second g) (g_second_args g) of
                      Inl e \<Rightarrow> (Inl e, s1\<lparr>doBypass := g_Bypass g\<rparr>)
                    | Inr c2 \<Rightarrow>
                        (let s2 = s1\<lparr>doBypass := g_Bypass g, secondClass := Some c2\<rparr>
                         in if \<not> connected c2
                            then give_up ''Connection Error to Second Classifier''
                                   [del_second, del_first] s2
                            else
                              (let s3 = s2\<lparr>arduino :=
                                             (if g_Bypass g
                                              then Some (Arduino_init (g_arduino_link g)
                                                           (g_arduino_writes g))
                                              else None),
                                           cpc := Some (CPC_init (g_cpc g) (g_cpc_args g))\<rparr>
                               in if \<not> connected (CPC_init (g_cpc g) (g_cpc_args g))
                                  then give_up ''Connection Error to CPC''
                                         [del_second, del_first, del_cpc] s3
                                  else start_devices s3)))))"

text \<open>
  The event loop: while the timer runs it calls \<^verbatim>\<open>check\<close>; an exception that leaves the slot
  ends the run. The number bounds the ticks that are followed.
\<close>

fun run_ticks :: "(string \<Rightarrow> real option) \<Rightarrow> nat \<Rightarrow> ui \<Rightarrow> unit uires" where
  "run_ticks pyfloat 0 s = (Inr (), s)"
| "run_ticks pyfloat (Suc n) s =
     (if timer s then
        (case Ui_check pyfloat s of
           (Inl e, s1) \<Rightarrow> (Inl e, s1)
         | (Inr u, s1) \<Rightarrow> run_ticks pyfloat n s1)
      else (Inr (), s))"

section \<open>What an observer of the scan sees\<close>

text \<open>
  \<open>vis\<close> is what cancellation is about: the flag, where Stop was pressed, the rows, the order
  of the releases, the timer, the file, and which objects are gone. A state is \<open>good\<close> when a
  scan runs on all three devices and Stop has not been pressed. \<open>ended s s'\<close> says that
  from \<open>s\<close> the scan has been ended in \<open>s'\<close> without a further row, and \<open>still s s'\<close> that
  it goes on as it was.
\<close>

definition vis ::
  "ui \<Rightarrow> bool \<times> site option \<times> (string \<rightharpoonup> cell) list \<times> device list \<times> bool \<times> bool \<times> bool \<times> bool
        \<times> bool" where
  "vis s = (isScanning s, cancelled_in s, rows s, map fst (released s), timer s, file_open s,
            firstClass s = None, secondClass s = None, cpc s = None)"

definition obs :: "ui \<Rightarrow> bool \<times> site option \<times> bool \<times> bool \<times> bool" where
  "obs s = (isScanning s, cancelled_in s, firstClass s = None, secondClass s = None, cpc s = None)"

definition good :: "ui \<Rightarrow> bool" where
  "good s = (isScanning s \<and> cancelled_in s = None \<and> firstClass s \<noteq> None
             \<and> secondClass s \<noteq> None \<and> cpc s \<noteq> None)"

definition ended :: "ui \<Rightarrow> ui \<Rightarrow> bool" where
  "ended s s' = (\<not> isScanning s' \<and> \<not> timer s' \<and> \<not> file_open s' \<and> rows s' = rows s
     \<and> firstClass s' = None \<and> secondClass s' = None \<and> cpc s' = None
     \<and> map fst (released s') = map fst (released s) @ [First, Second, Counter])"

definition still :: "ui \<Rightarrow> ui \<Rightarrow> bool" where
  "still s s' = (good s' \<and> rows s' = rows s \<and> map fst (released s') = map fst (released s))"

definition sa :: "ui \<Rightarrow> bool" where
  "sa s = (cancelled_in s = Some Settle \<or> cancelled_in s = Some Averaging)"

text \<open>\<open>dead s s'\<close>: when no scan runs in \<open>s\<close>, none runs in \<open>s'\<close> and no press of Stop has
  been recorded in between.\<close>

definition dead :: "ui \<Rightarrow> ui \<Rightarrow> bool" where
  "dead s s' = (\<not> isScanning s \<longrightarrow> \<not> isScanning s' \<and> cancelled_in s' = cancelled_in s)"

text \<open>\<open>fate s s'\<close>: a scan ended by Stop during a settle delay or the averaging loop has been
  ended without a further row, and a scan that still runs is still good.\<close>

definition fate :: "ui \<Rightarrow> ui \<Rightarrow> bool" where
  "fate s s' = ((sa s' \<longrightarrow> ended s s') \<and> (isScanning s' \<longrightarrow> good s'))"

text \<open>\<open>tame s s'\<close>: between \<open>s\<close> and \<open>s'\<close> Stop can only have ended the scan during a status
  update, and a scan that still runs is still good.\<close>

definition tame :: "ui \<Rightarrow> ui \<Rightarrow> bool" where
  "tame s s' = ((\<not> isScanning s \<longrightarrow> \<not> isScanning s' \<and> cancelled_in s' = cancelled_in s)
     \<and> (cancelled_in s' = cancelled_in s \<or> cancelled_in s' = Some Status)
     \<and> (good s \<longrightarrow> isScanning s' \<longrightarrow> good s'))"

section \<open>Values used by the closed instances\<close>

text \<open>
  The attributes of an object apart from its link: two objects with the same \<open>core\<close> differ
  at most in the connection flag, the last response, the log and the pending outcomes.
\<close>

definition core :: "classifier \<Rightarrow> classifier" where
  "core c = c\<lparr>connected := False, lastResponse := [], sent := [], nreads := 0\<rparr>"

text \<open>
  A device that gives the replies \<open>rs\<close> and is silent afterwards, and arguments for a
  classifier on an open link with a silent device.
\<close>

definition replies :: "reply list \<Rightarrow> nat \<Rightarrow> reply" where
  "replies rs n = (if n < length rs then rs ! n else Data [])"


definition demo_args :: "real \<Rightarrow> real \<Rightarrow> int \<Rightarrow> ctor_args" where
  "demo_args st en pd =
     \<lparr>a_isSerial = False, a_link = True, a_writes = (\<lambda>n. True), a_reads = replies [],
      a_start = st, a_end = en, a_perdec = pd, a_flow = 1.5, a_RorQsh = 10,
      a_Polarity = True, a_PreFactor = [], a_Exponent = [], a_f_lower = [], a_f_upper = [],
      a_IsWater = True, a_IsSoot = False, a_IsNone = False, a_variableBins = False\<rparr>"

text \<open>A stepped DMA in mid-sweep whose next replies are \<open>rs\<close>, and a reader of the
  numerals that the instances use.\<close>

definition demo_dma :: "reply list \<Rightarrow> classifier" where
  "demo_dma rs =
     (Classifier_fields TSI3082 (demo_args 1 10 2) 3 [1, 10 powr (1 / 2), 10])
       \<lparr>connected := True, reads := replies rs\<rparr>"

definition demo_float :: "string \<Rightarrow> real option" where
  "demo_float t =
     (if t = ''1'' then Some 1 else if t = ''0.95'' then Some 0.95
      else if t = ''-100'' then Some (- 100) else if t = ''-50'' then Some (- 50)
      else if t = ''2'' then Some 2 else if t = ''4'' then Some 4 else None)"

text \<open>The four numbers that \<^verbatim>\<open>TSI3082.isReady\<close> takes from the replies.\<close>

definition gating_values ::
  "(string \<Rightarrow> real option) \<Rightarrow> classifier \<Rightarrow> (py_error + real) list" where
  "gating_values pyfloat c =
     (case fst (doMonitorCmd c) of
        Inl e \<Rightarrow> []
      | Inr r \<Rightarrow> map (float_of pyfloat r)
          [''Sheath flow SP (lpm)'', ''Sheath flow (lpm)'', ''Voltage SP (V)'', ''Voltage (V)''])"



text \<open>The stepped DMA standing on the last of its three points, with five samples taken.\<close>

definition demo_last :: classifier where
  "demo_last =
     (demo_dma [])\<lparr>point := 2, setpoint_x := 10, tally := Some 5,
        values' := Some [''Temperature (C)'' \<mapsto> 100, ''Pressure (kPa)'' \<mapsto> 500]\<rparr>"

text \<open>The accumulators as \<^verbatim>\<open>next()\<close> leaves them, and the command that \<^verbatim>\<open>set(v)\<close> writes.\<close>

definition zero_values :: "kind \<Rightarrow> (string \<rightharpoonup> real) option" where
  "zero_values k = Some (dict_of (valueFields k) (map (\<lambda>f. 0) (valueFields k)))"

definition set_command :: "kind \<Rightarrow> real \<Rightarrow> command" where
  "set_command k v = (if isCambustion k then CmdE (sizeCommand k) v else CmdF (sizeCommand k) v)"

text \<open>An open link that has neither sent nor received anything.\<close>

definition demo_link :: instrument where
  "demo_link = \<lparr>isSerial = False, connected = True, lastResponse = [], sent = [],
                  writes = (\<lambda>n. True), reads = replies [], nreads = 0\<rparr>"

section \<open>Properties\<close>

subsection \<open>Response matching of the two classifier families\<close>

lemma match_prefix: "match s v \<longleftrightarrow> (\<exists>t. s = v @ t)"
  unfolding match_def
  by (metis append_eq_conv_conj append_take_drop_id)

text \<open>
  C10. Whatever the command and whatever the device answers (or fails to answer), a
  Cambustion classifier reports success exactly when the response returned by \<^verbatim>\<open>getRsp\<close>
  begins with \<^verbatim>\<open>OK\<close>, and a TSI DMA reports success exactly when it does not begin with
  \<^verbatim>\<open>ERROR\<close>; the response is stored in \<open>lastResponse\<close>. In particular the empty response of a
  read that timed out with nothing or of a read that raised (which also clears \<open>connected\<close>)
  is a failure for a Cambustion classifier and a success for a TSI DMA.
\<close>

theorem C10_sendAndCheck_families:
  "fst (CambustionClass_sendAndCheck c i) = (\<exists>t. fst (sendQuery c i) = ''OK'' @ t)
   \<and> fst (TSIDma_sendAndCheck c i) = (\<not> (\<exists>t. fst (sendQuery c i) = ''ERROR'' @ t))
   \<and> lastResponse (snd (CambustionClass_sendAndCheck c i)) = fst (sendQuery c i)
   \<and> lastResponse (snd (TSIDma_sendAndCheck c i)) = fst (sendQuery c i)
   \<and> fst (sendQuery c (i\<lparr>reads := (reads i)(nreads i := Data [])\<rparr>)) = []
   \<and> fst (sendQuery c (i\<lparr>reads := (reads i)(nreads i := IOErr)\<rparr>)) = []
   \<and> \<not> connected (snd (sendQuery c (i\<lparr>reads := (reads i)(nreads i := IOErr)\<rparr>)))
   \<and> \<not> fst (CambustionClass_sendAndCheck c (i\<lparr>reads := (reads i)(nreads i := Data [])\<rparr>))
   \<and> \<not> fst (CambustionClass_sendAndCheck c (i\<lparr>reads := (reads i)(nreads i := IOErr)\<rparr>))
   \<and> fst (TSIDma_sendAndCheck c (i\<lparr>reads := (reads i)(nreads i := Data [])\<rparr>))
   \<and> fst (TSIDma_sendAndCheck c (i\<lparr>reads := (reads i)(nreads i := IOErr)\<rparr>))"
proof -
  have cam: "\<And>j::'a instrument_scheme. fst (CambustionClass_sendAndCheck c j)
      = match (fst (sendQuery c j)) ''OK''"
    by (simp add: CambustionClass_sendAndCheck_def split: prod.splits)
  have tsi: "\<And>j::'a instrument_scheme. fst (TSIDma_sendAndCheck c j)
      = (\<not> match (fst (sendQuery c j)) ''ERROR'')"
    by (simp add: TSIDma_sendAndCheck_def split: prod.splits)
  have last: "lastResponse (snd (CambustionClass_sendAndCheck c i)) = fst (sendQuery c i)"
    "lastResponse (snd (TSIDma_sendAndCheck c i)) = fst (sendQuery c i)"
    by (simp_all add: CambustionClass_sendAndCheck_def TSIDma_sendAndCheck_def
        split: prod.splits)
  have silent: "fst (sendQuery c (i\<lparr>reads := (reads i)(nreads i := Data [])\<rparr>)) = []"
    by (simp add: sendQuery_def getRsp_def sendCmd_def)
  have err: "fst (sendQuery c (i\<lparr>reads := (reads i)(nreads i := IOErr)\<rparr>)) = []"
    "\<not> connected (snd (sendQuery c (i\<lparr>reads := (reads i)(nreads i := IOErr)\<rparr>)))"
    by (simp_all add: sendQuery_def getRsp_def sendCmd_def)
  have empty: "\<not> match [] ''OK''" "\<not> match [] ''ERROR''"
    by (simp_all add: match_def)
  show ?thesis
    using last silent err empty
    by (simp add: cam tsi match_prefix)
qed

subsection \<open>Frame lemmas: a command leaves the attributes of the object alone\<close>

lemma core_eqD:
  "core c' = core c \<Longrightarrow>
   kind c' = kind c \<and> start c' = start c \<and> end' c' = end' c \<and> perdec c' = perdec c
   \<and> points c' = points c \<and> point c' = point c \<and> flow c' = flow c \<and> RorQsh c' = RorQsh c
   \<and> setpoint_x c' = setpoint_x c \<and> setpoints_X c' = setpoints_X c \<and> values' c' = values' c
   \<and> tally c' = tally c \<and> variableBins c' = variableBins c
   \<and> sampleFlow c' = sampleFlow c \<and> f_lower c' = f_lower c \<and> f_upper c' = f_upper c
   \<and> PreFactor c' = PreFactor c \<and> Exponent c' = Exponent c \<and> isSerial c' = isSerial c
   \<and> writes c' = writes c \<and> reads c' = reads c"
  by (cases c, cases c') (simp add: core_def)

lemma core_sendCmd: "core (sendCmd cmd c) = core c"
  by (cases c) (simp add: core_def sendCmd_def)

lemma core_getRsp: "core (snd (getRsp c)) = core c"
  by (cases c) (simp add: core_def getRsp_def split: reply.splits)

lemma core_sendQuery: "core (snd (sendQuery cmd c)) = core c"
  by (simp add: sendQuery_def core_getRsp core_sendCmd)

lemma core_lastResponse: "core (c\<lparr>lastResponse := r\<rparr>) = core c"
  by (cases c) (simp add: core_def)


lemma core_sendAndCheck: "core (snd (sendAndCheck cmd c)) = core c"
  by (simp add: sendAndCheck_def CambustionClass_sendAndCheck_def TSIDma_sendAndCheck_def
      core_lastResponse split: prod.splits)
     (metis core_sendQuery snd_conv)

lemma core_sendFloat: "core (snd (sendFloat w v c)) = core c"
  by (simp add: sendFloat_def core_sendAndCheck)


lemma core_Classifier_set: "core (snd (Classifier_set v c)) = core c"
  by (simp add: Classifier_set_def core_sendFloat)


subsection \<open>The sweep axis\<close>







subsection \<open>Readiness by tolerance\<close>

lemma in_tolerance_nonzero:
  "ss \<noteq> 0 \<Longrightarrow> vs \<noteq> 0 \<Longrightarrow>
   in_tolerance ss sm vs vm
     = Inr (\<bar>ss - sm\<bar> / \<bar>ss\<bar> < tolerance \<and> \<bar>vs - vm\<bar> / \<bar>vs\<bar> < tolerance)"
  by (simp add: in_tolerance_def float_div_def)

text \<open>
  C2, as the code has it. The stepped TSI 3082 has read sheath-flow setpoint \<open>ss\<close> and
  feedback \<open>sm\<close>, voltage setpoint \<open>vs\<close> and feedback \<open>vm\<close>, both setpoints non-zero. Then
  \<^verbatim>\<open>isReady()\<close> returns, and returns true exactly when the deviation relative to the magnitude
  of the setpoint, \<open>|s - f| / |s|\<close>, is below the tolerance \<open>0.05\<close> on both channels; a
  deviation of exactly the tolerance on either channel gives false. (The claim divides by
  \<open>s\<close> itself, which differs for a negative setpoint.)
\<close>

theorem C2_isReady_tolerance:
  assumes "kind c = TSI3082"
    and "doMonitorCmd c = (Inr r, c1)"
    and "float_of pyfloat r ''Sheath flow SP (lpm)'' = Inr ss"
    and "float_of pyfloat r ''Sheath flow (lpm)'' = Inr sm"
    and "float_of pyfloat r ''Voltage SP (V)'' = Inr vs"
    and "float_of pyfloat r ''Voltage (V)'' = Inr vm"
    and "ss \<noteq> 0" and "vs \<noteq> 0"
  shows "isReady pyfloat c
           = (Inr (\<bar>ss - sm\<bar> / \<bar>ss\<bar> < tolerance \<and> \<bar>vs - vm\<bar> / \<bar>vs\<bar> < tolerance), c1)
     \<and> tolerance = 0.05
     \<and> (\<bar>ss - sm\<bar> / \<bar>ss\<bar> = tolerance \<or> \<bar>vs - vm\<bar> / \<bar>vs\<bar> = tolerance
          \<longrightarrow> fst (isReady pyfloat c) = Inr False)"
proof -
  have "isReady pyfloat c = (in_tolerance ss sm vs vm, c1)"
    using assms(1-6) by (simp add: isReady_def TSI3082_isReady_def)
  then have "isReady pyfloat c
      = (Inr (\<bar>ss - sm\<bar> / \<bar>ss\<bar> < tolerance \<and> \<bar>vs - vm\<bar> / \<bar>vs\<bar> < tolerance), c1)"
    using assms(7,8) by (simp add: in_tolerance_nonzero)
  then show ?thesis
    by (auto simp: tolerance_def)
qed

lemma demo_dma_gating:
  "fst (doMonitorCmd (demo_dma [Data a, Data b, Data c, Data d]))
     = Inr (projr (fst (doMonitorCmd (demo_dma [Data a, Data b, Data c, Data d]))))"
  "float_of demo_float (projr (fst (doMonitorCmd (demo_dma [Data a, Data b, Data c, Data d]))))
     ''Sheath flow SP (lpm)'' = float_of demo_float [''k'' \<mapsto> a] ''k''"
  "float_of demo_float (projr (fst (doMonitorCmd (demo_dma [Data a, Data b, Data c, Data d]))))
     ''Sheath flow (lpm)'' = float_of demo_float [''k'' \<mapsto> b] ''k''"
  "float_of demo_float (projr (fst (doMonitorCmd (demo_dma [Data a, Data b, Data c, Data d]))))
     ''Voltage SP (V)'' = float_of demo_float [''k'' \<mapsto> c] ''k''"
  "float_of demo_float (projr (fst (doMonitorCmd (demo_dma [Data a, Data b, Data c, Data d]))))
     ''Voltage (V)'' = float_of demo_float [''k'' \<mapsto> d] ''k''"
  by (simp_all add: doMonitorCmd_def monitorCmds_def demo_dma_def Classifier_fields_def
      demo_args_def sendQuery_def getRsp_def sendCmd_def dict_of_def float_of_def
      replies_def split: prod.splits)

theorem C2_isReady_tolerance_witness:
  "fst (isReady demo_float (demo_dma [Data ''1'', Data ''0.95'', Data ''1'', Data ''1'']))
     = Inr False
   \<and> fst (isReady demo_float (demo_dma [Data ''-100'', Data ''-50'', Data ''1'', Data ''1'']))
     = Inr False
   \<and> fst (isReady demo_float (demo_dma [Data ''2'', Data ''2'', Data ''4'', Data ''4'']))
     = Inr True"
proof -
  have k: "kind (demo_dma rs) = TSI3082" for rs
    by (simp add: demo_dma_def Classifier_fields_def)
  have m: "doMonitorCmd (demo_dma [Data a, Data b, Data c, Data d])
     = (Inr (projr (fst (doMonitorCmd (demo_dma [Data a, Data b, Data c, Data d])))),
        snd (doMonitorCmd (demo_dma [Data a, Data b, Data c, Data d])))" for a b c d
    using demo_dma_gating(1) [of a b c d] by (simp add: prod_eq_iff)
  have f: "float_of demo_float [''k'' \<mapsto> ''1''] ''k'' = Inr 1"
    "float_of demo_float [''k'' \<mapsto> ''0.95''] ''k'' = Inr 0.95"
    "float_of demo_float [''k'' \<mapsto> ''-100''] ''k'' = Inr (- 100)"
    "float_of demo_float [''k'' \<mapsto> ''-50''] ''k'' = Inr (- 50)"
    "float_of demo_float [''k'' \<mapsto> ''2''] ''k'' = Inr 2"
    "float_of demo_float [''k'' \<mapsto> ''4''] ''k'' = Inr 4"
    by (simp_all add: float_of_def demo_float_def)
  note g = demo_dma_gating(2-5)
  have "fst (isReady demo_float (demo_dma [Data ''1'', Data ''0.95'', Data ''1'', Data ''1'']))
     = Inr False"
    using C2_isReady_tolerance [OF k m, where pyfloat = demo_float and ss = 1 and sm = "0.95" and vs = 1 and vm = 1]
    by (simp add: g f tolerance_def)
  moreover
  have "fst (isReady demo_float (demo_dma [Data ''-100'', Data ''-50'', Data ''1'', Data ''1'']))
     = Inr False"
    using C2_isReady_tolerance [OF k m, where pyfloat = demo_float and ss = "- 100" and sm = "- 50" and vs = 1
        and vm = 1]
    by (simp add: g f tolerance_def)
  moreover
  have "fst (isReady demo_float (demo_dma [Data ''2'', Data ''2'', Data ''4'', Data ''4'']))
     = Inr True"
    using C2_isReady_tolerance [OF k m, where pyfloat = demo_float and ss = 2 and sm = 2 and vs = 4 and vm = 4]
    by (simp add: g f tolerance_def)
  ultimately show ?thesis by simp
qed

text \<open>
  The claim as it is worded fails for a negative setpoint: with sheath setpoint \<open>-100\<close> and
  feedback \<open>-50\<close> (and the voltage on its setpoint), \<open>|s - f| / s\<close> is \<open>-0.5\<close>, below the
  tolerance on both channels, but \<^verbatim>\<open>isReady()\<close> returns false.
\<close>

theorem C2_counterexample:
  "gating_values demo_float (demo_dma [Data ''-100'', Data ''-50'', Data ''1'', Data ''1''])
     = [Inr (- 100), Inr (- 50), Inr 1, Inr 1]
   \<and> \<bar>(- 100) - (- 50)\<bar> / (- 100) < tolerance
   \<and> \<bar>1 - 1\<bar> / 1 < tolerance
   \<and> fst (isReady demo_float (demo_dma [Data ''-100'', Data ''-50'', Data ''1'', Data ''1'']))
       = Inr False"
proof -
  have "gating_values demo_float (demo_dma [Data ''-100'', Data ''-50'', Data ''1'', Data ''1''])
     = [Inr (- 100), Inr (- 50), Inr 1, Inr 1]"
    unfolding gating_values_def
    by (subst demo_dma_gating(1))
       (simp add: demo_dma_gating(2-5), simp add: float_of_def demo_float_def)
  moreover
  have "fst (isReady demo_float (demo_dma [Data ''-100'', Data ''-50'', Data ''1'', Data ''1'']))
       = Inr False"
    by (simp add: isReady_def TSI3082_isReady_def demo_dma_def Classifier_fields_def
        doMonitorCmd_def monitorCmds_def demo_args_def sendQuery_def getRsp_def sendCmd_def
        dict_of_def float_of_def demo_float_def in_tolerance_def float_div_def tolerance_def
        replies_def split: prod.splits)
  ultimately show ?thesis
    by (simp add: tolerance_def)
qed

subsection \<open>Dynamic range\<close>









subsection \<open>Averaging\<close>















subsection \<open>Advancing the sweep\<close>

lemma sent_sendQuery: "sent (snd (sendQuery cmd c)) = sent c @ [cmd]"
  by (simp add: sendQuery_def getRsp_def sendCmd_def split: reply.splits)

lemma sent_sendAndCheck: "sent (snd (sendAndCheck cmd c)) = sent c @ [cmd]"
  using sent_sendQuery [of cmd c]
  by (auto simp: sendAndCheck_def CambustionClass_sendAndCheck_def TSIDma_sendAndCheck_def
      split: prod.splits)

lemma sent_Classifier_set:
  "sent (snd (Classifier_set v c)) = sent c @ [set_command (kind c) v]"
  by (simp add: Classifier_set_def sendFloat_def sent_sendAndCheck set_command_def)

lemma is_set_command_set: "is_set_command (set_command k v)"
  by (cases k) (simp_all add: set_command_def is_set_command_def isCambustion_def)

lemma py_get_in: "0 \<le> i \<Longrightarrow> i < int (length xs) \<Longrightarrow> py_get xs i = Inr (xs ! nat i)"
  by (simp add: py_get_def)

lemma py_get_out: "0 \<le> i \<Longrightarrow> int (length xs) \<le> i \<Longrightarrow> py_get xs i = Inl IndexError"
  by (simp add: py_get_def)

text \<open>
  C3, as the code has it. The object has \<^verbatim>\<open>X\<close> of \<open>points\<close> entries and an index of at least
  \<open>-1\<close>. When the index is not at the last point, \<^verbatim>\<open>next()\<close> resets the accumulators to zero,
  increments the index, takes the new setpoint from \<^verbatim>\<open>X\<close>, writes exactly one command, the
  set-setpoint command for that value, and returns the acknowledgement of the device. When
  the index is at the last point, \<^verbatim>\<open>next()\<close> does not return false: it raises \<^verbatim>\<open>IndexError\<close>
  from the read of \<^verbatim>\<open>X\<close>, without writing a command, after the accumulators have been reset
  and the index incremented. (The scan loop asks \<^verbatim>\<open>moreToCome()\<close> before it calls \<^verbatim>\<open>next()\<close>.)
\<close>

theorem C3_next:
  assumes "int (length (setpoints_X c)) = points c" and "- 1 \<le> point c"
  shows "(moreToCome c \<longrightarrow>
            (\<exists>ok c'. Classifier_next c = (Inr ok, c')
               \<and> point c' = point c + 1
               \<and> setpoint_x c' = setpoints_X c ! nat (point c + 1)
               \<and> values' c' = zero_values (kind c) \<and> tally c' = Some 0
               \<and> sent c' = sent c @ [set_command (kind c) (setpoints_X c ! nat (point c + 1))]
               \<and> is_set_command (set_command (kind c) (setpoints_X c ! nat (point c + 1)))
               \<and> (ok, c') = Classifier_set (setpoints_X c ! nat (point c + 1))
                     (c\<lparr>values' := zero_values (kind c), tally := Some 0,
                        point := point c + 1,
                        setpoint_x := setpoints_X c ! nat (point c + 1)\<rparr>)))
     \<and> (\<not> moreToCome c \<longrightarrow>
            Classifier_next c
              = (Inl IndexError,
                 c\<lparr>values' := zero_values (kind c), tally := Some 0, point := point c + 1\<rparr>))"
proof (intro conjI impI)
  assume "moreToCome c"
  with assms have i: "0 \<le> point c + 1" "point c + 1 < int (length (setpoints_X c))"
    by (simp_all add: moreToCome_def)
  define v where "v = setpoints_X c ! nat (point c + 1)"
  define c1 where "c1 = c\<lparr>values' := zero_values (kind c), tally := Some 0,
      point := point c + 1, setpoint_x := v\<rparr>"
  have nx: "Classifier_next c = (Inr (fst (Classifier_set v c1)), snd (Classifier_set v c1))"
    using py_get_in [OF i]
    by (simp add: Classifier_next_def Let_def zero_values_def c1_def v_def split: prod.splits)
  from core_eqD [OF core_Classifier_set [of v c1]]
  have fr: "point (snd (Classifier_set v c1)) = point c + 1"
    "setpoint_x (snd (Classifier_set v c1)) = v"
    "values' (snd (Classifier_set v c1)) = zero_values (kind c)"
    "tally (snd (Classifier_set v c1)) = Some 0"
    by (simp_all add: c1_def)
  have sn: "sent (snd (Classifier_set v c1)) = sent c @ [set_command (kind c) v]"
    by (simp add: sent_Classifier_set) (simp add: c1_def)
  from nx fr sn is_set_command_set [of "kind c" v]
  show "\<exists>ok c'. Classifier_next c = (Inr ok, c')
               \<and> point c' = point c + 1
               \<and> setpoint_x c' = setpoints_X c ! nat (point c + 1)
               \<and> values' c' = zero_values (kind c) \<and> tally c' = Some 0
               \<and> sent c' = sent c @ [set_command (kind c) (setpoints_X c ! nat (point c + 1))]
               \<and> is_set_command (set_command (kind c) (setpoints_X c ! nat (point c + 1)))
               \<and> (ok, c') = Classifier_set (setpoints_X c ! nat (point c + 1))
                     (c\<lparr>values' := zero_values (kind c), tally := Some 0,
                        point := point c + 1,
                        setpoint_x := setpoints_X c ! nat (point c + 1)\<rparr>)"
    unfolding v_def [symmetric] c1_def [symmetric]
    by (intro exI [of _ "fst (Classifier_set v c1)"] exI [of _ "snd (Classifier_set v c1)"])
       simp
next
  assume "\<not> moreToCome c"
  with assms have i: "0 \<le> point c + 1" "int (length (setpoints_X c)) \<le> point c + 1"
    by (simp_all add: moreToCome_def)
  show "Classifier_next c
      = (Inl IndexError,
         c\<lparr>values' := zero_values (kind c), tally := Some 0, point := point c + 1\<rparr>)"
    using py_get_out [OF i]
    by (simp add: Classifier_next_def Let_def zero_values_def)
qed

lemma demo_last_shape:
  "int (length (setpoints_X demo_last)) = points demo_last" "- 1 \<le> point demo_last"
  "\<not> moreToCome demo_last" "kind demo_last = TSI3082"
  by (simp_all add: demo_last_def demo_dma_def Classifier_fields_def moreToCome_def)

lemma demo_dma_shape:
  "int (length (setpoints_X (demo_dma rs))) = points (demo_dma rs)" "- 1 \<le> point (demo_dma rs)"
  "moreToCome (demo_dma rs)" "kind (demo_dma rs) = TSI3082" "point (demo_dma rs) = - 1"
  "setpoints_X (demo_dma rs) ! 0 = 1" "sent (demo_dma rs) = []"
  by (simp_all add: demo_dma_def Classifier_fields_def moreToCome_def)

theorem C3_next_witness:
  "Classifier_next demo_last
     = (Inl IndexError, demo_last\<lparr>values' := zero_values TSI3082, tally := Some 0, point := 3\<rparr>)
   \<and> (\<exists>ok c'. Classifier_next (demo_dma []) = (Inr ok, c') \<and> point c' = 0
         \<and> setpoint_x c' = 1 \<and> tally c' = Some 0
         \<and> sent c' = [CmdF ''WSPARTICLEDIAM '' 1])"
proof -
  from C3_next [OF demo_last_shape(1,2)] demo_last_shape(3)
  have a: "Classifier_next demo_last
     = (Inl IndexError, demo_last\<lparr>values' := zero_values TSI3082, tally := Some 0, point := 3\<rparr>)"
    by (simp add: demo_last_shape(4)) (simp add: demo_last_def)
  from C3_next [OF demo_dma_shape(1,2), of "[]"] demo_dma_shape(3) [of "[]"]
  obtain ok c' where "Classifier_next (demo_dma []) = (Inr ok, c')"
    "point c' = point (demo_dma []) + 1"
    "setpoint_x c' = setpoints_X (demo_dma []) ! nat (point (demo_dma []) + 1)"
    "tally c' = Some 0"
    "sent c' = sent (demo_dma []) @ [set_command (kind (demo_dma []))
        (setpoints_X (demo_dma []) ! nat (point (demo_dma []) + 1))]"
    by blast
  then have "Classifier_next (demo_dma []) = (Inr ok, c') \<and> point c' = 0
         \<and> setpoint_x c' = 1 \<and> tally c' = Some 0
         \<and> sent c' = [CmdF ''WSPARTICLEDIAM '' 1]"
    by (simp add: demo_dma_shape set_command_def isCambustion_def)
  with a show ?thesis by blast
qed

text \<open>
  The claim fails at the last point: the DMA standing on point 2 of 3, with five samples
  taken, does not return false from \<^verbatim>\<open>next()\<close> and does not keep its state. The call raises
  \<^verbatim>\<open>IndexError\<close>, the index has become 3 and the tally 0.
\<close>

theorem C3_counterexample:
  "points demo_last \<le> point demo_last + 1
   \<and> fst (Classifier_next demo_last) = Inl IndexError
   \<and> fst (Classifier_next demo_last) \<noteq> Inr False
   \<and> snd (Classifier_next demo_last) \<noteq> demo_last
   \<and> point demo_last = 2 \<and> point (snd (Classifier_next demo_last)) = 3
   \<and> tally demo_last = Some 5 \<and> tally (snd (Classifier_next demo_last)) = Some 0"
proof -
  have n: "Classifier_next demo_last
     = (Inl IndexError, demo_last\<lparr>values' := zero_values TSI3082, tally := Some 0, point := 3\<rparr>)"
    by (simp add: Classifier_next_def Let_def zero_values_def py_get_def demo_last_def
        demo_dma_def Classifier_fields_def)
  have p: "point demo_last = 2" "tally demo_last = Some 5" "points demo_last = 3"
    by (simp_all add: demo_last_def demo_dma_def Classifier_fields_def)
  have "demo_last\<lparr>values' := zero_values TSI3082, tally := Some 0, point := 3\<rparr> \<noteq> demo_last"
  proof
    assume "demo_last\<lparr>values' := zero_values TSI3082, tally := Some 0, point := 3\<rparr> = demo_last"
    then have "point (demo_last\<lparr>values' := zero_values TSI3082, tally := Some 0, point := 3\<rparr>)
        = point demo_last"
      by simp
    with p show False by simp
  qed
  with n p show ?thesis by simp
qed

subsection \<open>Framing of responses\<close>

lemma take_app_short: "n \<le> length s \<Longrightarrow> take n (s @ b) = take n s"
  by simp

lemma take_eq_len: "take (length v) s = v \<Longrightarrow> length v \<le> length s"
proof -
  assume h: "take (length v) s = v"
  have "length (take (length v) s) = length v" by (simp only: h)
  then show ?thesis by simp
qed

lemma nth_window: "k + 2 < length xs \<Longrightarrow> take 3 (drop k xs) ! 2 = xs ! (k + 2)"
  by simp

lemma find_str_here: "take (length v) s = v \<Longrightarrow> find_str s v = 0"
  by (cases s) auto

lemma find_str_first:
  "\<forall>k < length pre. take (length v) (drop k (pre @ v @ post)) \<noteq> v
   \<Longrightarrow> find_str (pre @ v @ post) v = int (length pre)"
proof (induction pre)
  case Nil
  then show ?case by (simp add: find_str_here)
next
  case (Cons c pre)
  from Cons.prems have "take (length v) (drop 0 ((c # pre) @ v @ post)) \<noteq> v"
    by (intro Cons.prems [rule_format]) simp
  then have h: "take (length v) (c # pre @ v @ post) \<noteq> v" by simp
  have "\<forall>k < length pre. take (length v) (drop k (pre @ v @ post)) \<noteq> v"
  proof (intro allI impI)
    fix k assume "k < length pre"
    then have "Suc k < length (c # pre)" by simp
    from Cons.prems [rule_format, OF this] show "take (length v) (drop k (pre @ v @ post)) \<noteq> v"
      by simp
  qed
  then have "find_str (pre @ v @ post) v = int (length pre)" by (rule Cons.IH)
  with h show ?case by (simp add: Let_def)
qed

lemma find_str_len: "0 \<le> find_str a v \<Longrightarrow> length v \<le> length a"
proof (induction a)
  case Nil
  then show ?case by (simp split: if_splits)
next
  case (Cons c a)
  show ?case
  proof (cases "take (length v) (c # a) = v")
    case True
    then show ?thesis by (rule take_eq_len)
  next
    case False
    with Cons.prems have "0 \<le> find_str a v"
      by (simp add: Let_def split: if_splits)
    with Cons.IH show ?thesis by simp
  qed
qed

lemma find_str_append:
  "0 \<le> find_str a v \<Longrightarrow> find_str (a @ b) v = find_str a v"
proof (induction a)
  case Nil
  then have "v = []" by (simp split: if_splits)
  then show ?case by (simp add: find_str_here)
next
  case (Cons c a)
  from find_str_len [OF Cons.prems] have len: "length v \<le> length (c # a)" .
  have tk: "take (length v) ((c # a) @ b) = take (length v) (c # a)"
    using len by (rule take_app_short)
  show ?case
  proof (cases "take (length v) (c # a) = v")
    case True
    with tk show ?thesis by simp
  next
    case False
    with Cons.prems have r: "0 \<le> find_str a v"
      by (simp add: Let_def split: if_splits)
    with Cons.IH have e: "find_str (a @ b) v = find_str a v" by simp
    from False tk have "take (length v) (c # a @ b) \<noteq> v" by simp
    with False e r show ?thesis by (simp add: Let_def)
  qed
qed

lemma find_str_cases: "find_str s v < 0 \<or> (0 \<le> find_str s v \<and> nat (find_str s v) \<le> length s)"
  by (induction s) (auto simp: Let_def)

lemma frame_append: "0 \<le> find_str a prompt \<Longrightarrow> frame (a @ b) = frame a"
proof -
  assume h: "0 \<le> find_str a prompt"
  with find_str_cases [of a prompt] have "nat (find_str a prompt) \<le> length a" by simp
  with h show ?thesis
    by (simp add: frame_def slice0_def find_str_append)
qed

lemma prompt_first:
  assumes "CHR ''>'' \<notin> set pre"
  shows "\<forall>k < length pre. take (length prompt) (drop k (pre @ prompt @ post)) \<noteq> prompt"
proof (intro allI impI notI)
  fix k assume k: "k < length pre"
    and e: "take (length prompt) (drop k (pre @ prompt @ post)) = prompt"
  define xs where "xs = pre @ prompt @ post"
  have len: "k + 2 < length xs"
    using k by (simp add: xs_def prompt_def)
  have pl: "length prompt = 3" by (simp add: prompt_def)
  from e have "take 3 (drop k xs) = prompt"
    by (simp only: pl xs_def)
  then have "take 3 (drop k xs) ! 2 = CHR ''>''"
    by (simp add: prompt_def)
  with nth_window [OF len] have gt: "xs ! (k + 2) = CHR ''>''" by simp
  have "xs ! (k + 2) \<noteq> CHR ''>''"
  proof (cases "k + 2 < length pre")
    case True
    then have "xs ! (k + 2) = pre ! (k + 2)" by (simp add: xs_def nth_append)
    moreover from True have "pre ! (k + 2) \<in> set pre" by (rule nth_mem)
    ultimately show ?thesis using assms by auto
  next
    case False
    with k have "k + 2 - length pre = 0 \<or> k + 2 - length pre = 1" by arith
    moreover from False have "xs ! (k + 2) = (prompt @ post) ! (k + 2 - length pre)"
      by (simp add: xs_def nth_append)
    ultimately show ?thesis by (auto simp: prompt_def)
  qed
  with gt show False by simp
qed

lemma frame_payload:
  "CHR ''>'' \<notin> set pre \<Longrightarrow> frame (pre @ prompt @ post) = pre"
  using find_str_first [OF prompt_first, of pre post]
  by (auto simp: frame_def slice0_def remove_char_def filter_id_conv)

lemma find_str_prefix_none: "find_str (a @ b) v < 0 \<Longrightarrow> find_str a v < 0"
  using find_str_append [of a v b] by linarith

lemma getRsp_prompt:
  assumes "\<forall>(e, d) \<in> set ds. e < t"
    and "0 \<le> find_str (chunks @ concat (map snd ds)) prompt"
  shows "CambustionClass_getRsp t chunks (map (\<lambda>(e, d). (e, Data d)) ds @ rest) i
     = Some (frame (chunks @ concat (map snd ds)), i)"
  using assms
proof (induction ds arbitrary: chunks)
  case Nil
  then show ?case by (cases rest) auto
next
  case (Cons ed ds)
  obtain e d where ed: "ed = (e, d)" by (cases ed)
  show ?case
  proof (cases "0 \<le> find_str chunks prompt")
    case True
    then have "frame (chunks @ concat (map snd (ed # ds))) = frame chunks"
      by (rule frame_append)
    with True show ?thesis by (simp add: ed)
  next
    case False
    from Cons.prems have e: "e < t" and rest: "\<forall>(e, d) \<in> set ds. e < t"
      by (simp_all add: ed)
    from Cons.prems have "0 \<le> find_str ((chunks @ d) @ concat (map snd ds)) prompt"
      by (simp add: ed)
    from Cons.IH [OF rest this] False e show ?thesis
      by (simp add: ed)
  qed
qed

lemma getRsp_no_prompt:
  assumes "\<forall>(e, d) \<in> set ds. e < t"
    and "find_str (chunks @ concat (map snd ds)) prompt < 0"
  shows "CambustionClass_getRsp t chunks (map (\<lambda>(e, d). (e, Data d)) ds @ (e', r) # rest) i
     = (if e' < t then
          (case r of
             IOErr \<Rightarrow> Some ([], i\<lparr>connected := False\<rparr>)
           | Data d \<Rightarrow> CambustionClass_getRsp t (chunks @ concat (map snd ds) @ d) rest i)
        else Some (frame (chunks @ concat (map snd ds)), i))"
  using assms
proof (induction ds arbitrary: chunks)
  case Nil
  then show ?case by (simp split: reply.splits)
next
  case (Cons ed ds)
  obtain e d where ed: "ed = (e, d)" by (cases ed)
  from Cons.prems have e: "e < t" and rest: "\<forall>(e, d) \<in> set ds. e < t"
    by (simp_all add: ed)
  from Cons.prems have n: "find_str ((chunks @ d) @ concat (map snd ds)) prompt < 0"
    by (simp add: ed)
  from Cons.prems have "find_str chunks prompt < 0"
    by (intro find_str_prefix_none [of chunks "concat (map snd (ed # ds))"]) 
  with Cons.IH [OF rest n] e show ?case
    by (simp add: ed split: reply.splits)
qed

text \<open>
  C6, as the code has it. \<^verbatim>\<open>CambustionClass.getRsp\<close> reads the chunks \<open>ds\<close>, each before the
  time is up.
  \<^item> If the text read so far contains the prompt, the call returns the text before the first
    prompt with every \<open>>\<close> removed, and the link is as it was. That text is the payload
    itself when the payload has no \<open>>\<close>; whatever follows the prompt is dropped.
  \<^item> If the text has no prompt and the next read raises before the time is up, the call
    returns the empty string and clears \<open>connected\<close>.
  \<^item> If the text has no prompt and the time is up, the call returns and the link is as it
    was: \<open>connected\<close> is not cleared. With nothing read the result is the empty string.
  \<^item> \<^verbatim>\<open>Instrument.getRspEth\<close> and \<^verbatim>\<open>getRspSerial\<close> return one read as it is, without looking
    for a terminator; a read that raises gives the empty string and clears \<open>connected\<close>.
\<close>

theorem C6_getRsp:
  assumes "\<forall>(e, d) \<in> set ds. e < timeout"
  shows "(0 \<le> find_str (concat (map snd ds)) prompt \<longrightarrow>
            CambustionClass_getRsp timeout [] (map (\<lambda>(e, d). (e, Data d)) ds @ rest) i
              = Some (frame (concat (map snd ds)), i))
     \<and> (find_str (concat (map snd ds)) prompt < 0 \<longrightarrow> e' < timeout \<longrightarrow>
            CambustionClass_getRsp timeout []
                (map (\<lambda>(e, d). (e, Data d)) ds @ (e', IOErr) # rest) i
              = Some ([], i\<lparr>connected := False\<rparr>))
     \<and> (find_str (concat (map snd ds)) prompt < 0 \<longrightarrow> timeout \<le> e' \<longrightarrow>
            (\<exists>s. CambustionClass_getRsp timeout []
                    (map (\<lambda>(e, d). (e, Data d)) ds @ (e', r) # rest) i = Some (s, i)
                 \<and> (concat (map snd ds) = [] \<longrightarrow> s = [])))
     \<and> (CHR ''>'' \<notin> set pre \<longrightarrow> frame (pre @ prompt @ post) = pre)
     \<and> ((\<forall>k < length pre. take (length prompt) (drop k (pre @ prompt @ post)) \<noteq> prompt)
           \<longrightarrow> frame (pre @ prompt @ post) = remove_char (CHR ''>'') pre)
     \<and> Instrument_getRsp (Data t) i = (t, i)
     \<and> Instrument_getRsp IOErr i = ([], i\<lparr>connected := False\<rparr>)"
proof -
  have a: "0 \<le> find_str (concat (map snd ds)) prompt \<longrightarrow>
            CambustionClass_getRsp timeout [] (map (\<lambda>(e, d). (e, Data d)) ds @ rest) i
              = Some (frame (concat (map snd ds)), i)"
    using getRsp_prompt [OF assms, of "[]" rest i] by simp
  have b: "find_str (concat (map snd ds)) prompt < 0 \<longrightarrow> e' < timeout \<longrightarrow>
            CambustionClass_getRsp timeout []
                (map (\<lambda>(e, d). (e, Data d)) ds @ (e', IOErr) # rest) i
              = Some ([], i\<lparr>connected := False\<rparr>)"
    using getRsp_no_prompt [OF assms, of "[]" e' IOErr rest i] by simp
  have fe: "frame [] = []"
    by (simp add: frame_def slice0_def remove_char_def)
  have c: "find_str (concat (map snd ds)) prompt < 0 \<longrightarrow> timeout \<le> e' \<longrightarrow>
            (\<exists>s. CambustionClass_getRsp timeout []
                    (map (\<lambda>(e, d). (e, Data d)) ds @ (e', r) # rest) i = Some (s, i)
                 \<and> (concat (map snd ds) = [] \<longrightarrow> s = []))"
  proof (intro impI)
    assume n: "find_str (concat (map snd ds)) prompt < 0" and up: "timeout \<le> e'"
    from n have "find_str ([] @ concat (map snd ds)) prompt < 0" by simp
    from getRsp_no_prompt [OF assms this, of e' r rest i] up
    have eq: "CambustionClass_getRsp timeout []
        (map (\<lambda>(e, d). (e, Data d)) ds @ (e', r) # rest) i
          = Some (frame (concat (map snd ds)), i)"
      by simp
    have "concat (map snd ds) = [] \<longrightarrow> frame (concat (map snd ds)) = []"
      using fe by metis
    with eq show "\<exists>s. CambustionClass_getRsp timeout []
                    (map (\<lambda>(e, d). (e, Data d)) ds @ (e', r) # rest) i = Some (s, i)
                 \<and> (concat (map snd ds) = [] \<longrightarrow> s = [])"
      by blast
  qed
  have d: "CHR ''>'' \<notin> set pre \<longrightarrow> frame (pre @ prompt @ post) = pre"
    by (simp add: frame_payload)
  have e: "(\<forall>k < length pre. take (length prompt) (drop k (pre @ prompt @ post)) \<noteq> prompt)
           \<longrightarrow> frame (pre @ prompt @ post) = remove_char (CHR ''>'') pre"
    using find_str_first [of pre prompt post]
    by (auto simp: frame_def slice0_def)
  have f: "Instrument_getRsp (Data t) i = (t, i)"
    "Instrument_getRsp IOErr i = ([], i\<lparr>connected := False\<rparr>)"
    by (simp_all add: Instrument_getRsp_def)
  from a b c d e f show ?thesis by blast
qed

theorem C6_getRsp_witness:
  "CambustionClass_getRsp CambustionClass_timeout []
       [(0, Data ''OK''), (1, Data prompt), (2, Data ''late'')] demo_link
     = Some (''OK'', demo_link)
   \<and> CambustionClass_getRsp CambustionClass_timeout []
       [(0, Data ''OK''), (1, IOErr)] demo_link
     = Some ([], demo_link\<lparr>connected := False\<rparr>)"
proof -
  have h: "\<forall>(e, d) \<in> set [(0, ''OK''), (1, prompt)]. e < CambustionClass_timeout"
    by (simp add: CambustionClass_timeout_def)
  have h': "\<forall>(e, d) \<in> set [(0::real, ''OK'')]. e < CambustionClass_timeout"
    by (simp add: CambustionClass_timeout_def)
  have p: "find_str (''OK'' @ prompt) prompt = 2" "find_str ''OK'' prompt < 0"
    by (simp_all add: prompt_def)
  have "CHR ''>'' \<notin> set ''OK'' \<longrightarrow> frame (''OK'' @ prompt @ []) = ''OK''"
    using C6_getRsp [OF h, where pre = "''OK''" and post = "[]"] by blast
  then have fr: "frame (''OK'' @ prompt) = ''OK''" by simp
  have "0 \<le> find_str (concat (map snd [(0::real, ''OK''), (1, prompt)])) prompt \<longrightarrow>
      CambustionClass_getRsp CambustionClass_timeout []
        (map (\<lambda>(e, d). (e, Data d)) [(0, ''OK''), (1, prompt)] @ [(2, Data ''late'')]) demo_link
      = Some (frame (concat (map snd [(0::real, ''OK''), (1, prompt)])), demo_link)"
    using C6_getRsp [OF h, where rest = "[(2, Data ''late'')]" and i = demo_link] by blast
  with p fr have a: "CambustionClass_getRsp CambustionClass_timeout []
       [(0, Data ''OK''), (1, Data prompt), (2, Data ''late'')] demo_link
     = Some (''OK'', demo_link)"
    by simp
  have "find_str (concat (map snd [(0::real, ''OK'')])) prompt < 0 \<longrightarrow>
      1 < CambustionClass_timeout \<longrightarrow>
      CambustionClass_getRsp CambustionClass_timeout []
        (map (\<lambda>(e, d). (e, Data d)) [(0, ''OK'')] @ (1, IOErr) # []) demo_link
      = Some ([], demo_link\<lparr>connected := False\<rparr>)"
    using C6_getRsp [OF h', where e' = 1 and rest = "[]" and i = demo_link] by blast
  with p have b: "CambustionClass_getRsp CambustionClass_timeout []
       [(0, Data ''OK''), (1, IOErr)] demo_link
     = Some ([], demo_link\<lparr>connected := False\<rparr>)"
    by (simp add: CambustionClass_timeout_def)
  from a b show ?thesis by simp
qed

text \<open>
  The claim fails on a timeout with no terminator: the device sends \<^verbatim>\<open>OK\<close> without a prompt
  and then nothing until the three seconds are over. The call returns \<^verbatim>\<open>O\<close>, not the empty
  string, and the link stays connected.
\<close>

theorem C6_counterexample:
  "find_str ''OK'' prompt < 0
   \<and> CambustionClass_getRsp CambustionClass_timeout [] [(0, Data ''OK''), (3, Data [])] demo_link
       = Some (''O'', demo_link)
   \<and> connected demo_link"
  by (simp add: CambustionClass_timeout_def prompt_def frame_def slice0_def remove_char_def
      demo_link_def)

end
